theory Spec2Isabelle
  imports Complex_Main "HOL-Library.Word" "HOL-Library.AList"
begin

section \<open>Lua values and the result codes of libmosquitto\<close>

text \<open>
  The binding \<^verbatim>\<open>lua-mosquitto.c\<close> sits between the Lua runtime and libmosquitto.
  Lua values are modelled by a datatype; a table is the list of its entries in the order
  in which \<^verbatim>\<open>lua_next\<close> visits them. A Lua number is the rational it denotes (every
  finite double is one). A Lua string is a byte string and may contain the byte 0.
\<close>

datatype lua_value =
    LNil
  | LBoolean bool
  | LNumber rat
  | LString string
  | LTable "(lua_value \<times> lua_value) list"
  | LFunction nat
  | LUserdata nat

text \<open>
  What a Lua C function does when it ends: it returns the values it pushed
  (\<^verbatim>\<open>return n\<close>), or raises a Lua error (\<^verbatim>\<open>luaL_error\<close>, \<^verbatim>\<open>luaL_argerror\<close>), which
  unwinds the C stack.
\<close>

datatype outcome = Returns "lua_value list" | Raises string

text \<open>The values of \<^verbatim>\<open>enum mosq_err_t\<close> in \<^verbatim>\<open>mosquitto.h\<close> that the binding names.\<close>

definition MOSQ_ERR_SUCCESS :: int where "MOSQ_ERR_SUCCESS = 0"
definition MOSQ_ERR_NOMEM :: int where "MOSQ_ERR_NOMEM = 1"
definition MOSQ_ERR_PROTOCOL :: int where "MOSQ_ERR_PROTOCOL = 2"
definition MOSQ_ERR_INVAL :: int where "MOSQ_ERR_INVAL = 3"
definition MOSQ_ERR_NO_CONN :: int where "MOSQ_ERR_NO_CONN = 4"
definition MOSQ_ERR_CONN_LOST :: int where "MOSQ_ERR_CONN_LOST = 7"
definition MOSQ_ERR_PAYLOAD_SIZE :: int where "MOSQ_ERR_PAYLOAD_SIZE = 9"
definition MOSQ_ERR_NOT_SUPPORTED :: int where "MOSQ_ERR_NOT_SUPPORTED = 10"
definition MOSQ_ERR_ERRNO :: int where "MOSQ_ERR_ERRNO = 14"

text \<open>Further values of the same enum, which the binding receives but does not name.\<close>

definition MOSQ_ERR_CONN_REFUSED :: int where "MOSQ_ERR_CONN_REFUSED = 5"
definition MOSQ_ERR_EAI :: int where "MOSQ_ERR_EAI = 15"
definition MOSQ_ERR_MALFORMED_UTF8 :: int where "MOSQ_ERR_MALFORMED_UTF8 = 18"
definition MOSQ_ERR_DUPLICATE_PROPERTY :: int where "MOSQ_ERR_DUPLICATE_PROPERTY = 22"


text \<open>
  C strings. A Lua string handed to C through \<^verbatim>\<open>lua_tolstring(L, i, NULL)\<close> is a
  pointer to its bytes, followed by a byte 0. A C function that takes it as
  \<^verbatim>\<open>const char *\<close> sees the bytes before the first byte 0.
\<close>

definition strlen :: "string \<Rightarrow> nat" where
  "strlen s = length (takeWhile (\<lambda>c. c \<noteq> CHR 0x00) s)"

definition cstring :: "string \<Rightarrow> string" where
  "cstring s = take (strlen s) s"

definition tolower :: "char \<Rightarrow> char" where
  "tolower c =
     (if 65 \<le> (of_char c :: nat) \<and> (of_char c :: nat) \<le> 90
      then char_of ((of_char c :: nat) + 32) else c)"

definition UINT8_MAX :: int where "UINT8_MAX = 255"
definition UINT16_MAX :: int where "UINT16_MAX = 65535"
definition UINT32_MAX :: int where "UINT32_MAX = 4294967295"
definition INT_MIN :: int where "INT_MIN = - 2147483648"
definition INT_MAX :: int where "INT_MAX = 2147483647"

section \<open>MQTT v5 properties: the part of libmosquitto the binding calls\<close>

text \<open>
  libmosquitto is not part of the repository. Its property functions are modelled after
  \<^verbatim>\<open>mosquitto.h\<close> and \<^verbatim>\<open>mqtt_protocol.h\<close>: the identifiers of
  \<^verbatim>\<open>enum mqtt5_property\<close>, the wire types of \<^verbatim>\<open>enum mqtt5_property_type\<close>, and
  the commands a property list is checked against.
\<close>

datatype mqtt_prop_id =
    MQTT_PROP_PAYLOAD_FORMAT_INDICATOR
  | MQTT_PROP_MESSAGE_EXPIRY_INTERVAL
  | MQTT_PROP_CONTENT_TYPE
  | MQTT_PROP_RESPONSE_TOPIC
  | MQTT_PROP_CORRELATION_DATA
  | MQTT_PROP_SUBSCRIPTION_IDENTIFIER
  | MQTT_PROP_SESSION_EXPIRY_INTERVAL
  | MQTT_PROP_ASSIGNED_CLIENT_IDENTIFIER
  | MQTT_PROP_SERVER_KEEP_ALIVE
  | MQTT_PROP_AUTHENTICATION_METHOD
  | MQTT_PROP_AUTHENTICATION_DATA
  | MQTT_PROP_REQUEST_PROBLEM_INFORMATION
  | MQTT_PROP_WILL_DELAY_INTERVAL
  | MQTT_PROP_REQUEST_RESPONSE_INFORMATION
  | MQTT_PROP_RESPONSE_INFORMATION
  | MQTT_PROP_SERVER_REFERENCE
  | MQTT_PROP_REASON_STRING
  | MQTT_PROP_RECEIVE_MAXIMUM
  | MQTT_PROP_TOPIC_ALIAS_MAXIMUM
  | MQTT_PROP_TOPIC_ALIAS
  | MQTT_PROP_MAXIMUM_QOS
  | MQTT_PROP_RETAIN_AVAILABLE
  | MQTT_PROP_USER_PROPERTY
  | MQTT_PROP_MAXIMUM_PACKET_SIZE
  | MQTT_PROP_WILDCARD_SUB_AVAILABLE
  | MQTT_PROP_SUBSCRIPTION_ID_AVAILABLE
  | MQTT_PROP_SHARED_SUB_AVAILABLE

datatype mqtt_prop_type =
    MQTT_PROP_TYPE_BYTE
  | MQTT_PROP_TYPE_INT16
  | MQTT_PROP_TYPE_INT32
  | MQTT_PROP_TYPE_VARINT
  | MQTT_PROP_TYPE_BINARY
  | MQTT_PROP_TYPE_STRING
  | MQTT_PROP_TYPE_STRING_PAIR

datatype mqtt_command =
    CMD_CONNECT | CMD_CONNACK | CMD_PUBLISH | CMD_PUBACK | CMD_PUBREC | CMD_PUBREL
  | CMD_PUBCOMP | CMD_SUBSCRIBE | CMD_SUBACK | CMD_UNSUBSCRIBE | CMD_UNSUBACK
  | CMD_DISCONNECT | CMD_AUTH | CMD_WILL

text \<open>
  \<^verbatim>\<open>struct mqtt5__property\<close>: the identifier and the value. The C struct holds the value
  in a union that is read according to the identifier; here each member of the union is
  a field of its own, and a property made by \<^verbatim>\<open>calloc\<close> has every field zero.
  A property list is the list of its nodes in order.
\<close>

record mosquitto_property =
  prop_identifier :: mqtt_prop_id
  value_i8 :: "8 word"
  value_i16 :: "16 word"
  value_i32 :: "32 word"
  value_varint :: "32 word"
  value_bin :: string
  value_s :: string
  name_v :: string

definition property_calloc :: "mqtt_prop_id \<Rightarrow> mosquitto_property" where
  "property_calloc i =
     \<lparr>prop_identifier = i, value_i8 = 0, value_i16 = 0, value_i32 = 0, value_varint = 0,
      value_bin = [], value_s = [], name_v = []\<rparr>"

text \<open>
  Everything the binding's results depend on that neither its arguments nor its code
  fix: the message tables of libmosquitto and libc, \<^verbatim>\<open>errno\<close>, how Lua prints a number,
  libmosquitto's UTF-8 validation, whether an allocation succeeds, the value an
  uninitialised \<^verbatim>\<open>int\<close> happens to hold, and what the conversion of a double outside the
  range of \<^verbatim>\<open>int\<close> yields (undefined in C).
\<close>

record world =
  mosquitto_strerror :: "int \<Rightarrow> string"
  errno :: int
  strerror :: "int \<Rightarrow> string"
  mosquitto_connack_string :: "int \<Rightarrow> string"
  mosquitto_reason_string :: "int \<Rightarrow> string"
  lua_number_tostring :: "rat \<Rightarrow> string"
  utf8_valid :: "string \<Rightarrow> bool"
  alloc_ok :: "mosquitto_property list \<Rightarrow> mosquitto_property \<Rightarrow> bool"
  read_alloc_ok :: "mosquitto_property \<Rightarrow> bool"
  uninitialised_int :: int
  double_to_int_out_of_range :: "rat \<Rightarrow> int"

text \<open>
  A world in which every allocation succeeds, every string passes the UTF-8 validation,
  the uninitialised \<^verbatim>\<open>int\<close> happens to be 0 and an out-of-range conversion yields
  \<^verbatim>\<open>INT_MIN\<close> (as on x86-64).
\<close>

definition plain_world :: world where
  "plain_world =
     \<lparr>mosquitto_strerror = (\<lambda>_. ''mosquitto error''), errno = 0,
      strerror = (\<lambda>_. ''os error''),
      mosquitto_connack_string = (\<lambda>_. ''connack''),
      mosquitto_reason_string = (\<lambda>_. ''reason''),
      lua_number_tostring = (\<lambda>_. ''0''),
      utf8_valid = (\<lambda>_. True),
      alloc_ok = (\<lambda>_ _. True),
      read_alloc_ok = (\<lambda>_. True),
      uninitialised_int = 0,
      double_to_int_out_of_range = (\<lambda>_. - 2147483648)\<rparr>"

text \<open>
  The same world, except that the UTF-8 validation of libmosquitto rejects a string that
  holds the byte \<^verbatim>\<open>0xFF\<close>, which no UTF-8 text contains.
\<close>

definition strict_world :: world where
  "strict_world = plain_world\<lparr>utf8_valid := (\<lambda>s. CHR 0xFF \<notin> set s)\<rparr>"

text \<open>\<^verbatim>\<open>mosquitto_property_identifier_to_string\<close> and the wire type of each identifier.\<close>

fun mosquitto_property_identifier_to_string :: "mqtt_prop_id \<Rightarrow> string" where
  "mosquitto_property_identifier_to_string MQTT_PROP_PAYLOAD_FORMAT_INDICATOR = ''payload-format-indicator''"
| "mosquitto_property_identifier_to_string MQTT_PROP_MESSAGE_EXPIRY_INTERVAL = ''message-expiry-interval''"
| "mosquitto_property_identifier_to_string MQTT_PROP_CONTENT_TYPE = ''content-type''"
| "mosquitto_property_identifier_to_string MQTT_PROP_RESPONSE_TOPIC = ''response-topic''"
| "mosquitto_property_identifier_to_string MQTT_PROP_CORRELATION_DATA = ''correlation-data''"
| "mosquitto_property_identifier_to_string MQTT_PROP_SUBSCRIPTION_IDENTIFIER = ''subscription-identifier''"
| "mosquitto_property_identifier_to_string MQTT_PROP_SESSION_EXPIRY_INTERVAL = ''session-expiry-interval''"
| "mosquitto_property_identifier_to_string MQTT_PROP_ASSIGNED_CLIENT_IDENTIFIER = ''assigned-client-identifier''"
| "mosquitto_property_identifier_to_string MQTT_PROP_SERVER_KEEP_ALIVE = ''server-keep-alive''"
| "mosquitto_property_identifier_to_string MQTT_PROP_AUTHENTICATION_METHOD = ''authentication-method''"
| "mosquitto_property_identifier_to_string MQTT_PROP_AUTHENTICATION_DATA = ''authentication-data''"
| "mosquitto_property_identifier_to_string MQTT_PROP_REQUEST_PROBLEM_INFORMATION = ''request-problem-information''"
| "mosquitto_property_identifier_to_string MQTT_PROP_WILL_DELAY_INTERVAL = ''will-delay-interval''"
| "mosquitto_property_identifier_to_string MQTT_PROP_REQUEST_RESPONSE_INFORMATION = ''request-response-information''"
| "mosquitto_property_identifier_to_string MQTT_PROP_RESPONSE_INFORMATION = ''response-information''"
| "mosquitto_property_identifier_to_string MQTT_PROP_SERVER_REFERENCE = ''server-reference''"
| "mosquitto_property_identifier_to_string MQTT_PROP_REASON_STRING = ''reason-string''"
| "mosquitto_property_identifier_to_string MQTT_PROP_RECEIVE_MAXIMUM = ''receive-maximum''"
| "mosquitto_property_identifier_to_string MQTT_PROP_TOPIC_ALIAS_MAXIMUM = ''topic-alias-maximum''"
| "mosquitto_property_identifier_to_string MQTT_PROP_TOPIC_ALIAS = ''topic-alias''"
| "mosquitto_property_identifier_to_string MQTT_PROP_MAXIMUM_QOS = ''maximum-qos''"
| "mosquitto_property_identifier_to_string MQTT_PROP_RETAIN_AVAILABLE = ''retain-available''"
| "mosquitto_property_identifier_to_string MQTT_PROP_USER_PROPERTY = ''user-property''"
| "mosquitto_property_identifier_to_string MQTT_PROP_MAXIMUM_PACKET_SIZE = ''maximum-packet-size''"
| "mosquitto_property_identifier_to_string MQTT_PROP_WILDCARD_SUB_AVAILABLE = ''wildcard-subscription-available''"
| "mosquitto_property_identifier_to_string MQTT_PROP_SUBSCRIPTION_ID_AVAILABLE = ''subscription-identifier-available''"
| "mosquitto_property_identifier_to_string MQTT_PROP_SHARED_SUB_AVAILABLE = ''shared-subscription-available''"

fun property_type :: "mqtt_prop_id \<Rightarrow> mqtt_prop_type" where
  "property_type MQTT_PROP_PAYLOAD_FORMAT_INDICATOR = MQTT_PROP_TYPE_BYTE"
| "property_type MQTT_PROP_MESSAGE_EXPIRY_INTERVAL = MQTT_PROP_TYPE_INT32"
| "property_type MQTT_PROP_CONTENT_TYPE = MQTT_PROP_TYPE_STRING"
| "property_type MQTT_PROP_RESPONSE_TOPIC = MQTT_PROP_TYPE_STRING"
| "property_type MQTT_PROP_CORRELATION_DATA = MQTT_PROP_TYPE_BINARY"
| "property_type MQTT_PROP_SUBSCRIPTION_IDENTIFIER = MQTT_PROP_TYPE_VARINT"
| "property_type MQTT_PROP_SESSION_EXPIRY_INTERVAL = MQTT_PROP_TYPE_INT32"
| "property_type MQTT_PROP_ASSIGNED_CLIENT_IDENTIFIER = MQTT_PROP_TYPE_STRING"
| "property_type MQTT_PROP_SERVER_KEEP_ALIVE = MQTT_PROP_TYPE_INT16"
| "property_type MQTT_PROP_AUTHENTICATION_METHOD = MQTT_PROP_TYPE_STRING"
| "property_type MQTT_PROP_AUTHENTICATION_DATA = MQTT_PROP_TYPE_BINARY"
| "property_type MQTT_PROP_REQUEST_PROBLEM_INFORMATION = MQTT_PROP_TYPE_BYTE"
| "property_type MQTT_PROP_WILL_DELAY_INTERVAL = MQTT_PROP_TYPE_INT32"
| "property_type MQTT_PROP_REQUEST_RESPONSE_INFORMATION = MQTT_PROP_TYPE_BYTE"
| "property_type MQTT_PROP_RESPONSE_INFORMATION = MQTT_PROP_TYPE_STRING"
| "property_type MQTT_PROP_SERVER_REFERENCE = MQTT_PROP_TYPE_STRING"
| "property_type MQTT_PROP_REASON_STRING = MQTT_PROP_TYPE_STRING"
| "property_type MQTT_PROP_RECEIVE_MAXIMUM = MQTT_PROP_TYPE_INT16"
| "property_type MQTT_PROP_TOPIC_ALIAS_MAXIMUM = MQTT_PROP_TYPE_INT16"
| "property_type MQTT_PROP_TOPIC_ALIAS = MQTT_PROP_TYPE_INT16"
| "property_type MQTT_PROP_MAXIMUM_QOS = MQTT_PROP_TYPE_BYTE"
| "property_type MQTT_PROP_RETAIN_AVAILABLE = MQTT_PROP_TYPE_BYTE"
| "property_type MQTT_PROP_USER_PROPERTY = MQTT_PROP_TYPE_STRING_PAIR"
| "property_type MQTT_PROP_MAXIMUM_PACKET_SIZE = MQTT_PROP_TYPE_INT32"
| "property_type MQTT_PROP_WILDCARD_SUB_AVAILABLE = MQTT_PROP_TYPE_BYTE"
| "property_type MQTT_PROP_SUBSCRIPTION_ID_AVAILABLE = MQTT_PROP_TYPE_BYTE"
| "property_type MQTT_PROP_SHARED_SUB_AVAILABLE = MQTT_PROP_TYPE_BYTE"

definition all_property_ids :: "mqtt_prop_id list" where
  "all_property_ids =
     [MQTT_PROP_PAYLOAD_FORMAT_INDICATOR, MQTT_PROP_MESSAGE_EXPIRY_INTERVAL,
      MQTT_PROP_CONTENT_TYPE, MQTT_PROP_RESPONSE_TOPIC, MQTT_PROP_CORRELATION_DATA,
      MQTT_PROP_SUBSCRIPTION_IDENTIFIER, MQTT_PROP_SESSION_EXPIRY_INTERVAL,
      MQTT_PROP_ASSIGNED_CLIENT_IDENTIFIER, MQTT_PROP_SERVER_KEEP_ALIVE,
      MQTT_PROP_AUTHENTICATION_METHOD, MQTT_PROP_AUTHENTICATION_DATA,
      MQTT_PROP_REQUEST_PROBLEM_INFORMATION, MQTT_PROP_WILL_DELAY_INTERVAL,
      MQTT_PROP_REQUEST_RESPONSE_INFORMATION, MQTT_PROP_RESPONSE_INFORMATION,
      MQTT_PROP_SERVER_REFERENCE, MQTT_PROP_REASON_STRING, MQTT_PROP_RECEIVE_MAXIMUM,
      MQTT_PROP_TOPIC_ALIAS_MAXIMUM, MQTT_PROP_TOPIC_ALIAS, MQTT_PROP_MAXIMUM_QOS,
      MQTT_PROP_RETAIN_AVAILABLE, MQTT_PROP_USER_PROPERTY, MQTT_PROP_MAXIMUM_PACKET_SIZE,
      MQTT_PROP_WILDCARD_SUB_AVAILABLE, MQTT_PROP_SUBSCRIPTION_ID_AVAILABLE,
      MQTT_PROP_SHARED_SUB_AVAILABLE]"

text \<open>
  \<^verbatim>\<open>mosquitto_string_to_property_info\<close>: the name is compared with \<^verbatim>\<open>strcasecmp\<close>
  against each known name in turn; \<^verbatim>\<open>None\<close> is the result \<^verbatim>\<open>MOSQ_ERR_INVAL\<close> (a name
  that is \<^verbatim>\<open>NULL\<close> or unknown), \<^verbatim>\<open>Some\<close> is \<^verbatim>\<open>MOSQ_ERR_SUCCESS\<close> with the identifier
  and the type written through the pointers.
\<close>

definition mosquitto_string_to_property_info ::
  "string option \<Rightarrow> (mqtt_prop_id \<times> mqtt_prop_type) option" where
  "mosquitto_string_to_property_info propname =
     (case propname of
        None \<Rightarrow> None
      | Some n \<Rightarrow>
          map_of (map (\<lambda>i. (mosquitto_property_identifier_to_string i, (i, property_type i)))
                    all_property_ids)
            (map tolower (cstring n)))"

text \<open>
  The \<^verbatim>\<open>mosquitto_property_add_*\<close> functions. Each checks that the identifier has the
  wire type of the function, allocates a node and appends it to the end of the list. The
  result is the return code and the list as it is afterwards.
\<close>

definition property__add ::
  "world \<Rightarrow> mosquitto_property list \<Rightarrow> mosquitto_property \<Rightarrow> int \<times> mosquitto_property list" where
  "property__add w proplist prop =
     (if alloc_ok w proplist prop then (MOSQ_ERR_SUCCESS, proplist @ [prop])
      else (MOSQ_ERR_NOMEM, proplist))"

definition mosquitto_property_add_byte ::
  "world \<Rightarrow> mosquitto_property list \<Rightarrow> mqtt_prop_id \<Rightarrow> 8 word \<Rightarrow> int \<times> mosquitto_property list" where
  "mosquitto_property_add_byte w proplist ident v =
     (if property_type ident \<noteq> MQTT_PROP_TYPE_BYTE then (MOSQ_ERR_INVAL, proplist)
      else property__add w proplist ((property_calloc ident)\<lparr>value_i8 := v\<rparr>))"

definition mosquitto_property_add_int16 ::
  "world \<Rightarrow> mosquitto_property list \<Rightarrow> mqtt_prop_id \<Rightarrow> 16 word \<Rightarrow> int \<times> mosquitto_property list" where
  "mosquitto_property_add_int16 w proplist ident v =
     (if property_type ident \<noteq> MQTT_PROP_TYPE_INT16 then (MOSQ_ERR_INVAL, proplist)
      else property__add w proplist ((property_calloc ident)\<lparr>value_i16 := v\<rparr>))"

definition mosquitto_property_add_int32 ::
  "world \<Rightarrow> mosquitto_property list \<Rightarrow> mqtt_prop_id \<Rightarrow> 32 word \<Rightarrow> int \<times> mosquitto_property list" where
  "mosquitto_property_add_int32 w proplist ident v =
     (if property_type ident \<noteq> MQTT_PROP_TYPE_INT32 then (MOSQ_ERR_INVAL, proplist)
      else property__add w proplist ((property_calloc ident)\<lparr>value_i32 := v\<rparr>))"

definition mosquitto_property_add_varint ::
  "world \<Rightarrow> mosquitto_property list \<Rightarrow> mqtt_prop_id \<Rightarrow> 32 word \<Rightarrow> int \<times> mosquitto_property list" where
  "mosquitto_property_add_varint w proplist ident v =
     (if uint v > 268435455 then (MOSQ_ERR_INVAL, proplist)
      else if property_type ident \<noteq> MQTT_PROP_TYPE_VARINT then (MOSQ_ERR_INVAL, proplist)
      else property__add w proplist ((property_calloc ident)\<lparr>value_varint := v\<rparr>))"

text \<open>\<^verbatim>\<open>mosquitto_property_add_binary\<close> copies \<^verbatim>\<open>len\<close> bytes from \<^verbatim>\<open>value\<close>.\<close>

definition mosquitto_property_add_binary ::
  "world \<Rightarrow> mosquitto_property list \<Rightarrow> mqtt_prop_id \<Rightarrow> string \<Rightarrow> 16 word
     \<Rightarrow> int \<times> mosquitto_property list" where
  "mosquitto_property_add_binary w proplist ident v len =
     (if property_type ident \<noteq> MQTT_PROP_TYPE_BINARY then (MOSQ_ERR_INVAL, proplist)
      else property__add w proplist ((property_calloc ident)\<lparr>value_bin := take (unat len) v\<rparr>))"

text \<open>
  \<^verbatim>\<open>mosquitto_property_add_string\<close> and \<^verbatim>\<open>mosquitto_property_add_string_pair\<close> take C
  strings: they validate and copy the bytes before the first byte 0. A \<^verbatim>\<open>NULL\<close>
  argument is \<^verbatim>\<open>None\<close>.
\<close>

definition mosquitto_property_add_string ::
  "world \<Rightarrow> mosquitto_property list \<Rightarrow> mqtt_prop_id \<Rightarrow> string option
     \<Rightarrow> int \<times> mosquitto_property list" where
  "mosquitto_property_add_string w proplist ident v =
     (case v of
        None \<Rightarrow> (MOSQ_ERR_INVAL, proplist)
      | Some s \<Rightarrow>
          if \<not> utf8_valid w (cstring s) then (MOSQ_ERR_MALFORMED_UTF8, proplist)
          else if property_type ident \<noteq> MQTT_PROP_TYPE_STRING then (MOSQ_ERR_INVAL, proplist)
          else property__add w proplist ((property_calloc ident)\<lparr>value_s := cstring s\<rparr>))"

definition mosquitto_property_add_string_pair ::
  "world \<Rightarrow> mosquitto_property list \<Rightarrow> mqtt_prop_id \<Rightarrow> string option \<Rightarrow> string option
     \<Rightarrow> int \<times> mosquitto_property list" where
  "mosquitto_property_add_string_pair w proplist ident n v =
     (if property_type ident \<noteq> MQTT_PROP_TYPE_STRING_PAIR then (MOSQ_ERR_INVAL, proplist)
      else
        (case (n, v) of
           (Some n', Some v') \<Rightarrow>
             if \<not> utf8_valid w (cstring n') then (MOSQ_ERR_MALFORMED_UTF8, proplist)
             else if \<not> utf8_valid w (cstring v') then (MOSQ_ERR_MALFORMED_UTF8, proplist)
             else property__add w proplist
                    ((property_calloc ident)\<lparr>value_s := cstring v', name_v := cstring n'\<rparr>)
         | _ \<Rightarrow> (MOSQ_ERR_INVAL, proplist)))"

text \<open>
  \<^verbatim>\<open>mosquitto_property_check_command\<close>: which command may carry which property.
\<close>

definition mosquitto_property_check_command :: "mqtt_command \<Rightarrow> mqtt_prop_id \<Rightarrow> int" where
  "mosquitto_property_check_command command ident =
     (if ident \<in> set [MQTT_PROP_PAYLOAD_FORMAT_INDICATOR, MQTT_PROP_MESSAGE_EXPIRY_INTERVAL,
                      MQTT_PROP_CONTENT_TYPE, MQTT_PROP_RESPONSE_TOPIC,
                      MQTT_PROP_CORRELATION_DATA] then
        (if command \<noteq> CMD_PUBLISH \<and> command \<noteq> CMD_WILL then MOSQ_ERR_PROTOCOL
         else MOSQ_ERR_SUCCESS)
      else if ident = MQTT_PROP_SUBSCRIPTION_IDENTIFIER then
        (if command \<noteq> CMD_PUBLISH \<and> command \<noteq> CMD_SUBSCRIBE then MOSQ_ERR_PROTOCOL
         else MOSQ_ERR_SUCCESS)
      else if ident = MQTT_PROP_SESSION_EXPIRY_INTERVAL then
        (if command \<noteq> CMD_CONNECT \<and> command \<noteq> CMD_CONNACK \<and> command \<noteq> CMD_DISCONNECT
         then MOSQ_ERR_PROTOCOL else MOSQ_ERR_SUCCESS)
      else if ident \<in> set [MQTT_PROP_AUTHENTICATION_METHOD, MQTT_PROP_AUTHENTICATION_DATA] then
        (if command \<noteq> CMD_CONNECT \<and> command \<noteq> CMD_CONNACK \<and> command \<noteq> CMD_AUTH
         then MOSQ_ERR_PROTOCOL else MOSQ_ERR_SUCCESS)
      else if ident \<in> set [MQTT_PROP_ASSIGNED_CLIENT_IDENTIFIER, MQTT_PROP_SERVER_KEEP_ALIVE,
                           MQTT_PROP_RESPONSE_INFORMATION, MQTT_PROP_MAXIMUM_QOS,
                           MQTT_PROP_RETAIN_AVAILABLE, MQTT_PROP_WILDCARD_SUB_AVAILABLE,
                           MQTT_PROP_SUBSCRIPTION_ID_AVAILABLE,
                           MQTT_PROP_SHARED_SUB_AVAILABLE] then
        (if command \<noteq> CMD_CONNACK then MOSQ_ERR_PROTOCOL else MOSQ_ERR_SUCCESS)
      else if ident = MQTT_PROP_WILL_DELAY_INTERVAL then
        (if command \<noteq> CMD_WILL then MOSQ_ERR_PROTOCOL else MOSQ_ERR_SUCCESS)
      else if ident \<in> set [MQTT_PROP_REQUEST_PROBLEM_INFORMATION,
                           MQTT_PROP_REQUEST_RESPONSE_INFORMATION] then
        (if command \<noteq> CMD_CONNECT then MOSQ_ERR_PROTOCOL else MOSQ_ERR_SUCCESS)
      else if ident = MQTT_PROP_SERVER_REFERENCE then
        (if command \<noteq> CMD_CONNACK \<and> command \<noteq> CMD_DISCONNECT then MOSQ_ERR_PROTOCOL
         else MOSQ_ERR_SUCCESS)
      else if ident = MQTT_PROP_REASON_STRING then
        (if command = CMD_CONNECT \<or> command = CMD_PUBLISH \<or> command = CMD_SUBSCRIBE
            \<or> command = CMD_UNSUBSCRIBE then MOSQ_ERR_PROTOCOL
         else MOSQ_ERR_SUCCESS)
      else if ident \<in> set [MQTT_PROP_RECEIVE_MAXIMUM, MQTT_PROP_TOPIC_ALIAS_MAXIMUM,
                           MQTT_PROP_MAXIMUM_PACKET_SIZE] then
        (if command \<noteq> CMD_CONNECT \<and> command \<noteq> CMD_CONNACK then MOSQ_ERR_PROTOCOL
         else MOSQ_ERR_SUCCESS)
      else if ident = MQTT_PROP_TOPIC_ALIAS then
        (if command \<noteq> CMD_PUBLISH then MOSQ_ERR_PROTOCOL else MOSQ_ERR_SUCCESS)
      else MOSQ_ERR_SUCCESS)"

text \<open>
  \<^verbatim>\<open>mosquitto_property_check_all\<close>: for each node in turn, the value checks of the
  protocol, the check against the command, and the search of the rest of the list for a
  second node with the same identifier (user properties excepted).
\<close>

fun mosquitto_property_check_all :: "mqtt_command \<Rightarrow> mosquitto_property list \<Rightarrow> int" where
  "mosquitto_property_check_all command [] = MOSQ_ERR_SUCCESS"
| "mosquitto_property_check_all command (p # tail) =
     (if property_type (prop_identifier p) = MQTT_PROP_TYPE_BYTE \<and> uint (value_i8 p) > 1
        then MOSQ_ERR_PROTOCOL
      else if prop_identifier p = MQTT_PROP_MAXIMUM_PACKET_SIZE \<and> value_i32 p = 0
        then MOSQ_ERR_PROTOCOL
      else if prop_identifier p \<in> set [MQTT_PROP_RECEIVE_MAXIMUM, MQTT_PROP_TOPIC_ALIAS]
                \<and> value_i16 p = 0
        then MOSQ_ERR_PROTOCOL
      else if mosquitto_property_check_command command (prop_identifier p) \<noteq> MOSQ_ERR_SUCCESS
        then mosquitto_property_check_command command (prop_identifier p)
      else if prop_identifier p \<noteq> MQTT_PROP_USER_PROPERTY
                \<and> prop_identifier p \<in> set (map prop_identifier tail)
        then MOSQ_ERR_DUPLICATE_PROPERTY
      else mosquitto_property_check_all command tail)"

section \<open>The property codec of the binding: Lua table to property list\<close>

text \<open>
  \<^verbatim>\<open>lua_tolstring(L, i, NULL)\<close>: the bytes of a string, the printed form of a number,
  \<^verbatim>\<open>NULL\<close> for every other value.
\<close>

definition lua_tolstring :: "world \<Rightarrow> lua_value \<Rightarrow> string option" where
  "lua_tolstring w v =
     (case v of
        LString s \<Rightarrow> Some s
      | LNumber n \<Rightarrow> Some (lua_number_tostring w n)
      | _ \<Rightarrow> None)"

text \<open>
  \<^verbatim>\<open>int value = lua_tonumber(L, -1)\<close>: the conversion of a double to \<^verbatim>\<open>int\<close> drops the
  fraction (towards zero). It is defined only if the result fits an \<^verbatim>\<open>int\<close>; otherwise
  the variable holds whatever the world yields, some 32-bit value.
\<close>

definition towards_zero :: "rat \<Rightarrow> int" where
  "towards_zero d = (if 0 \<le> d then \<lfloor>d\<rfloor> else \<lceil>d\<rceil>)"

definition double_to_int :: "world \<Rightarrow> rat \<Rightarrow> int" where
  "double_to_int w d =
     (if INT_MIN \<le> towards_zero d \<and> towards_zero d \<le> INT_MAX then towards_zero d
      else sint (word_of_int (double_to_int_out_of_range w d) :: 32 word))"

text \<open>
  How one pass through the body of the outer loop ends: at its end with \<^verbatim>\<open>rc\<close> set
  (\<open>Step\<close>), by \<^verbatim>\<open>return\<close> (\<open>Return\<close>), or by a Lua error raised in
  \<^verbatim>\<open>luaL_checktype\<close> (\<open>Error\<close>). Each carries the property list as it is then.
\<close>

datatype body_exit =
    Step int "mosquitto_property list"
  | Return int "mosquitto_property list"
  | Error string "mosquitto_property list"

text \<open>The branch \<^verbatim>\<open>luatype == LUA_TNUMBER\<close> (lines 1769 to 1802).\<close>

definition property_from_number ::
  "world \<Rightarrow> mosquitto_property list \<Rightarrow> mqtt_prop_id \<Rightarrow> mqtt_prop_type \<Rightarrow> rat \<Rightarrow> body_exit" where
  "property_from_number w proplist ident type d =
     (let v = double_to_int w d in
      case type of
        MQTT_PROP_TYPE_BYTE \<Rightarrow>
          if v < 0 \<or> v > UINT8_MAX then Step MOSQ_ERR_INVAL proplist
          else (case mosquitto_property_add_byte w proplist ident (word_of_int v) of
                  (rc, pl) \<Rightarrow> Step rc pl)
      | MQTT_PROP_TYPE_INT16 \<Rightarrow>
          if v < 0 \<or> v > UINT16_MAX then Step MOSQ_ERR_INVAL proplist
          else (case mosquitto_property_add_int16 w proplist ident (word_of_int v) of
                  (rc, pl) \<Rightarrow> Step rc pl)
      | MQTT_PROP_TYPE_INT32 \<Rightarrow>
          if v < 0 \<or> uint (word_of_int v :: 32 word) > UINT32_MAX
          then Step MOSQ_ERR_INVAL proplist
          else (case mosquitto_property_add_int32 w proplist ident (word_of_int v) of
                  (rc, pl) \<Rightarrow> Step rc pl)
      | MQTT_PROP_TYPE_VARINT \<Rightarrow>
          if v < 0 \<or> uint (word_of_int v :: 32 word) > UINT32_MAX
          then Step MOSQ_ERR_INVAL proplist
          else (case mosquitto_property_add_varint w proplist ident (word_of_int v) of
                  (rc, pl) \<Rightarrow> Step rc pl)
      | _ \<Rightarrow> Return MOSQ_ERR_INVAL proplist)"

text \<open>
  The branch \<^verbatim>\<open>luatype == LUA_TSTRING\<close> (lines 1803 to 1820). The length of a binary
  value is \<^verbatim>\<open>strlen(value)\<close>.
\<close>

definition property_from_string ::
  "world \<Rightarrow> mosquitto_property list \<Rightarrow> mqtt_prop_id \<Rightarrow> mqtt_prop_type \<Rightarrow> string \<Rightarrow> body_exit" where
  "property_from_string w proplist ident type v =
     (case type of
        MQTT_PROP_TYPE_BINARY \<Rightarrow>
          (let szt = strlen v in
           if int szt > UINT16_MAX then Step MOSQ_ERR_INVAL proplist
           else (case mosquitto_property_add_binary w proplist ident v (word_of_nat szt) of
                   (rc, pl) \<Rightarrow> Step rc pl))
      | MQTT_PROP_TYPE_STRING \<Rightarrow>
          (case mosquitto_property_add_string w proplist ident (Some v) of
             (rc, pl) \<Rightarrow> Step rc pl)
      | _ \<Rightarrow> Return MOSQ_ERR_INVAL proplist)"

text \<open>
  The branch \<^verbatim>\<open>luatype == LUA_TTABLE\<close> (lines 1821 to 1831): the inner loop over the
  entries of the nested table. Each pass overwrites \<^verbatim>\<open>rc\<close>; a key that is not a string
  raises a Lua error.
\<close>

fun property_from_table ::
  "world \<Rightarrow> mqtt_prop_id \<Rightarrow> (lua_value \<times> lua_value) list \<Rightarrow> int \<Rightarrow> mosquitto_property list
     \<Rightarrow> body_exit" where
  "property_from_table w ident [] rc proplist = Step rc proplist"
| "property_from_table w ident ((k, v) # rest) rc proplist =
     (case k of
        LString userkey \<Rightarrow>
          (case mosquitto_property_add_string_pair w proplist ident (Some userkey)
                  (lua_tolstring w v) of
             (rc', pl) \<Rightarrow> property_from_table w ident rest rc' pl)
      | _ \<Rightarrow> Error ''string expected'' proplist)"

text \<open>
  How the outer loop ends: by running out of entries or by \<^verbatim>\<open>break\<close> (\<open>Left\<close>, with
  the value of \<^verbatim>\<open>rc\<close>), by a \<^verbatim>\<open>return\<close> in its body, or by a Lua error.
\<close>

datatype loop_exit =
    Left int "mosquitto_property list"
  | Returned int "mosquitto_property list"
  | Errored string "mosquitto_property list"

text \<open>The outer loop (lines 1755 to 1844) over the entries of the table.\<close>

fun property_loop ::
  "world \<Rightarrow> (lua_value \<times> lua_value) list \<Rightarrow> int \<Rightarrow> mosquitto_property list \<Rightarrow> loop_exit" where
  "property_loop w [] rc proplist = Left rc proplist"
| "property_loop w ((k, v) # rest) rc proplist =
     (case mosquitto_string_to_property_info (lua_tolstring w k) of
        None \<Rightarrow> Left MOSQ_ERR_INVAL proplist
      | Some (ident, type) \<Rightarrow>
          (case (case v of
                   LNumber d \<Rightarrow> property_from_number w proplist ident type d
                 | LString s \<Rightarrow> property_from_string w proplist ident type s
                 | LTable t \<Rightarrow> property_from_table w ident t MOSQ_ERR_SUCCESS proplist
                 | _ \<Rightarrow> Step MOSQ_ERR_INVAL proplist) of
             Step rc' pl \<Rightarrow>
               if rc' \<noteq> MOSQ_ERR_SUCCESS then Left rc' pl else property_loop w rest rc' pl
           | Return rc' pl \<Rightarrow> Returned rc' pl
           | Error msg pl \<Rightarrow> Errored msg pl))"

text \<open>
  What \<^verbatim>\<open>create_property_list_from_lua_stack\<close> leaves behind: its return code, or the
  Lua error that left it, and in both cases the list the caller's pointer refers to
  (empty after \<^verbatim>\<open>mosquitto_property_free_all\<close>).
\<close>

datatype encode_exit =
    Rc int "mosquitto_property list"
  | LuaError string "mosquitto_property list"

text \<open>
  \<^verbatim>\<open>create_property_list_from_lua_stack\<close> (lines 1750 to 1862). \<^verbatim>\<open>rc\<close> is declared
  without a value, so the loop starts from the uninitialised \<^verbatim>\<open>int\<close> of the world.
\<close>

definition create_property_list_from_lua_stack ::
  "world \<Rightarrow> (lua_value \<times> lua_value) list \<Rightarrow> mosquitto_property list \<Rightarrow> mqtt_command
     \<Rightarrow> encode_exit" where
  "create_property_list_from_lua_stack w tbl proplist command =
     (case property_loop w tbl (uninitialised_int w) proplist of
        Errored msg pl \<Rightarrow> LuaError msg pl
      | Returned rc pl \<Rightarrow> Rc rc pl
      | Left rc pl \<Rightarrow>
          if rc \<noteq> MOSQ_ERR_SUCCESS then Rc rc []
          else if mosquitto_property_check_all command pl \<noteq> MOSQ_ERR_SUCCESS
            then Rc MOSQ_ERR_INVAL []
          else Rc MOSQ_ERR_SUCCESS pl)"

text \<open>
  For stating which entries of a table the encoder takes and which it refuses, in the
  words of the specification: name resolution, then the validation of the shape and
  the range of the value.

  \<open>number_property\<close> is the property a whole number stands for under a numeric wire
  type, if it is within the range of that type (for a 32-bit property within the part
  of the range that fits an \<^verbatim>\<open>int\<close>). \<open>string_property\<close> is the property a string stands
  for under the string and the binary wire type: the bytes before the first byte 0,
  which must be valid UTF-8 for a string and at most 65535 for a binary value.
  \<open>pair_properties\<close> are the properties of a nested table whose keys and values are
  strings of valid UTF-8, one for each pair.
\<close>

definition number_property ::
  "mqtt_prop_id \<Rightarrow> mqtt_prop_type \<Rightarrow> int \<Rightarrow> mosquitto_property option" where
  "number_property ident type n =
     (case type of
        MQTT_PROP_TYPE_BYTE \<Rightarrow>
          if 0 \<le> n \<and> n \<le> 255
          then Some ((property_calloc ident)\<lparr>value_i8 := word_of_int n\<rparr>) else None
      | MQTT_PROP_TYPE_INT16 \<Rightarrow>
          if 0 \<le> n \<and> n \<le> 65535
          then Some ((property_calloc ident)\<lparr>value_i16 := word_of_int n\<rparr>) else None
      | MQTT_PROP_TYPE_INT32 \<Rightarrow>
          if 0 \<le> n \<and> n \<le> 2147483647
          then Some ((property_calloc ident)\<lparr>value_i32 := word_of_int n\<rparr>) else None
      | MQTT_PROP_TYPE_VARINT \<Rightarrow>
          if 0 \<le> n \<and> n \<le> 268435455
          then Some ((property_calloc ident)\<lparr>value_varint := word_of_int n\<rparr>) else None
      | _ \<Rightarrow> None)"

definition string_property ::
  "world \<Rightarrow> mqtt_prop_id \<Rightarrow> mqtt_prop_type \<Rightarrow> string \<Rightarrow> mosquitto_property option" where
  "string_property w ident type s =
     (case type of
        MQTT_PROP_TYPE_BINARY \<Rightarrow>
          if strlen s \<le> 65535
          then Some ((property_calloc ident)\<lparr>value_bin := cstring s\<rparr>) else None
      | MQTT_PROP_TYPE_STRING \<Rightarrow>
          if utf8_valid w (cstring s)
          then Some ((property_calloc ident)\<lparr>value_s := cstring s\<rparr>) else None
      | _ \<Rightarrow> None)"

fun pair_properties ::
  "world \<Rightarrow> mqtt_prop_id \<Rightarrow> (lua_value \<times> lua_value) list \<Rightarrow> mosquitto_property list option" where
  "pair_properties w ident [] = Some []"
| "pair_properties w ident ((k, x) # t) =
     (case (k, x) of
        (LString ks, LString xs) \<Rightarrow>
          if utf8_valid w (cstring ks) \<and> utf8_valid w (cstring xs)
          then map_option
                 ((#) ((property_calloc ident)\<lparr>value_s := cstring xs, name_v := cstring ks\<rparr>))
                 (pair_properties w ident t)
          else None
      | _ \<Rightarrow> None)"

text \<open>
  \<open>entry_properties\<close> are the properties of an entry that passes: its name is known,
  and its value is a number (its fraction dropped) within the range of a numeric wire
  type, a string for the string or the binary wire type, or a table of pairs for the
  wire type of pairs. \<open>entry_rejected\<close> holds for an entry with an unknown name, with a
  number or a string that does not pass, or with a value that is neither number, string
  nor table. Nothing is said about a number whose whole part does not fit an \<^verbatim>\<open>int\<close>,
  and a table is never counted as rejected.
\<close>

fun entry_properties :: "world \<Rightarrow> lua_value \<times> lua_value \<Rightarrow> mosquitto_property list option" where
  "entry_properties w (k, v) =
     (case mosquitto_string_to_property_info (lua_tolstring w k) of
        None \<Rightarrow> None
      | Some (ident, type) \<Rightarrow>
          (case v of
             LNumber d \<Rightarrow>
               if INT_MIN \<le> towards_zero d \<and> towards_zero d \<le> INT_MAX
               then map_option (\<lambda>p. [p]) (number_property ident type (towards_zero d))
               else None
           | LString s \<Rightarrow> map_option (\<lambda>p. [p]) (string_property w ident type s)
           | LTable t \<Rightarrow>
               if type = MQTT_PROP_TYPE_STRING_PAIR then pair_properties w ident t else None
           | _ \<Rightarrow> None))"

fun entry_rejected :: "world \<Rightarrow> lua_value \<times> lua_value \<Rightarrow> bool" where
  "entry_rejected w (k, v) =
     (case mosquitto_string_to_property_info (lua_tolstring w k) of
        None \<Rightarrow> True
      | Some (ident, type) \<Rightarrow>
          (case v of
             LNumber d \<Rightarrow>
               INT_MIN \<le> towards_zero d \<and> towards_zero d \<le> INT_MAX
               \<and> number_property ident type (towards_zero d) = None
           | LString s \<Rightarrow> string_property w ident type s = None
           | LTable t \<Rightarrow> False
           | _ \<Rightarrow> True))"

section \<open>The property codec of the binding: property list to Lua table\<close>

text \<open>
  \<^verbatim>\<open>lua_setfield(L, i, k)\<close> on a table kept as the list of its entries: the entry for
  the key is replaced where it stands, a new key is added at the end. The key is a C
  string.
\<close>

definition lua_setfield ::
  "(lua_value \<times> lua_value) list \<Rightarrow> string \<Rightarrow> lua_value \<Rightarrow> (lua_value \<times> lua_value) list" where
  "lua_setfield t k v = AList.update (LString (cstring k)) v t"

text \<open>\<^verbatim>\<open>lua_pushstring\<close> pushes a C string, \<^verbatim>\<open>lua_pushlstring\<close> a buffer with its length.\<close>

definition lua_pushstring :: "string \<Rightarrow> lua_value" where
  "lua_pushstring s = LString (cstring s)"

definition lua_pushlstring :: "string \<Rightarrow> nat \<Rightarrow> lua_value" where
  "lua_pushlstring s len = LString (take len s)"

definition lua_pushinteger :: "int \<Rightarrow> lua_value" where
  "lua_pushinteger n = LNumber (of_int n)"

text \<open>
  The values \<^verbatim>\<open>create_lua_stack_from_property_list\<close> has on the Lua stack where it
  stops, bottom first: the root table, and above it the table of user properties once
  that has been created and is not yet attached.
\<close>

definition decode_stack ::
  "(lua_value \<times> lua_value) list \<Rightarrow> (lua_value \<times> lua_value) list option \<Rightarrow> lua_value list" where
  "decode_stack main user =
     (case user of None \<Rightarrow> [LTable main] | Some u \<Rightarrow> [LTable main, LTable u])"

text \<open>
  The loop of \<^verbatim>\<open>create_lua_stack_from_property_list\<close> (lines 1648 to 1735).
  \<open>user\<close> is \<^verbatim>\<open>None\<close> while \<^verbatim>\<open>user_prop_table_created\<close> is 0. A \<^verbatim>\<open>mosquitto_property_read_*\<close>
  function that copies a string yields \<^verbatim>\<open>NULL\<close> when its allocation fails, and the
  function returns \<^verbatim>\<open>MOSQ_ERR_NOMEM\<close> at once. After the loop (lines 1739 to 1743) the
  table of user properties is stored in the main table.
\<close>

fun decode_loop ::
  "world \<Rightarrow> mosquitto_property list \<Rightarrow> (lua_value \<times> lua_value) list
     \<Rightarrow> (lua_value \<times> lua_value) list option \<Rightarrow> int \<times> lua_value list" where
  "decode_loop w [] main user =
     (case user of
        None \<Rightarrow> (MOSQ_ERR_SUCCESS, [LTable main])
      | Some u \<Rightarrow>
          (MOSQ_ERR_SUCCESS,
           [LTable (lua_setfield main
                      (mosquitto_property_identifier_to_string MQTT_PROP_USER_PROPERTY)
                      (LTable u))]))"
| "decode_loop w (prop # rest) main user =
     (let ident = prop_identifier prop;
          key = mosquitto_property_identifier_to_string ident
      in
      if ident \<in> set [MQTT_PROP_PAYLOAD_FORMAT_INDICATOR, MQTT_PROP_REQUEST_PROBLEM_INFORMATION,
                       MQTT_PROP_REQUEST_RESPONSE_INFORMATION, MQTT_PROP_MAXIMUM_QOS,
                       MQTT_PROP_RETAIN_AVAILABLE, MQTT_PROP_WILDCARD_SUB_AVAILABLE,
                       MQTT_PROP_SUBSCRIPTION_ID_AVAILABLE, MQTT_PROP_SHARED_SUB_AVAILABLE] then
        decode_loop w rest (lua_setfield main key (lua_pushinteger (uint (value_i8 prop)))) user
      else if ident \<in> set [MQTT_PROP_SERVER_KEEP_ALIVE, MQTT_PROP_RECEIVE_MAXIMUM,
                            MQTT_PROP_TOPIC_ALIAS_MAXIMUM, MQTT_PROP_TOPIC_ALIAS] then
        decode_loop w rest (lua_setfield main key (lua_pushinteger (uint (value_i16 prop)))) user
      else if ident \<in> set [MQTT_PROP_MESSAGE_EXPIRY_INTERVAL, MQTT_PROP_SESSION_EXPIRY_INTERVAL,
                            MQTT_PROP_WILL_DELAY_INTERVAL, MQTT_PROP_MAXIMUM_PACKET_SIZE] then
        decode_loop w rest (lua_setfield main key (lua_pushinteger (uint (value_i32 prop)))) user
      else if ident = MQTT_PROP_SUBSCRIPTION_IDENTIFIER then
        decode_loop w rest (lua_setfield main key (lua_pushinteger (uint (value_varint prop)))) user
      else if ident \<in> set [MQTT_PROP_CONTENT_TYPE, MQTT_PROP_RESPONSE_TOPIC,
                            MQTT_PROP_ASSIGNED_CLIENT_IDENTIFIER, MQTT_PROP_AUTHENTICATION_METHOD,
                            MQTT_PROP_RESPONSE_INFORMATION, MQTT_PROP_SERVER_REFERENCE,
                            MQTT_PROP_REASON_STRING] then
        (if \<not> read_alloc_ok w prop then (MOSQ_ERR_NOMEM, decode_stack main user)
         else decode_loop w rest (lua_setfield main key (lua_pushstring (value_s prop))) user)
      else if ident \<in> set [MQTT_PROP_AUTHENTICATION_DATA, MQTT_PROP_CORRELATION_DATA] then
        (if \<not> read_alloc_ok w prop then (MOSQ_ERR_NOMEM, decode_stack main user)
         else decode_loop w rest
                (lua_setfield main key
                   (lua_pushlstring (value_bin prop) (length (value_bin prop)))) user)
      else if ident = MQTT_PROP_USER_PROPERTY then
        (let u = (case user of None \<Rightarrow> [] | Some t \<Rightarrow> t) in
         if \<not> read_alloc_ok w prop then (MOSQ_ERR_NOMEM, decode_stack main (Some u))
         else decode_loop w rest main
                (Some (lua_setfield u (name_v prop) (lua_pushstring (value_s prop)))))
      else decode_loop w rest main user)"

text \<open>
  \<^verbatim>\<open>create_lua_stack_from_property_list\<close> (lines 1635 to 1744): the return code and the
  values it leaves on the Lua stack.
\<close>

definition create_lua_stack_from_property_list ::
  "world \<Rightarrow> mosquitto_property list \<Rightarrow> int \<times> lua_value list" where
  "create_lua_stack_from_property_list w properties = decode_loop w properties [] None"

text \<open>
  For stating what the decoder yields. \<open>decoded_value\<close> is the Lua value for the value
  of a property, chosen by the wire type of its identifier. \<open>plain_entries\<close> and
  \<open>user_entries\<close> are the key and value of each property of the list in wire order,
  the user properties apart. \<open>set_all\<close> stores entries in a table one after the other.
\<close>

definition decoded_value :: "mosquitto_property \<Rightarrow> lua_value" where
  "decoded_value p =
     (case property_type (prop_identifier p) of
        MQTT_PROP_TYPE_BYTE \<Rightarrow> lua_pushinteger (uint (value_i8 p))
      | MQTT_PROP_TYPE_INT16 \<Rightarrow> lua_pushinteger (uint (value_i16 p))
      | MQTT_PROP_TYPE_INT32 \<Rightarrow> lua_pushinteger (uint (value_i32 p))
      | MQTT_PROP_TYPE_VARINT \<Rightarrow> lua_pushinteger (uint (value_varint p))
      | MQTT_PROP_TYPE_BINARY \<Rightarrow> LString (value_bin p)
      | _ \<Rightarrow> lua_pushstring (value_s p))"

definition plain_entries :: "mosquitto_property list \<Rightarrow> (lua_value \<times> lua_value) list" where
  "plain_entries ps =
     map (\<lambda>p. (LString (mosquitto_property_identifier_to_string (prop_identifier p)),
                decoded_value p))
       (filter (\<lambda>p. prop_identifier p \<noteq> MQTT_PROP_USER_PROPERTY) ps)"

definition user_entries :: "mosquitto_property list \<Rightarrow> (lua_value \<times> lua_value) list" where
  "user_entries ps =
     map (\<lambda>p. (LString (cstring (name_v p)), lua_pushstring (value_s p)))
       (filter (\<lambda>p. prop_identifier p = MQTT_PROP_USER_PROPERTY) ps)"

definition set_all ::
  "(lua_value \<times> lua_value) list \<Rightarrow> (lua_value \<times> lua_value) list
     \<Rightarrow> (lua_value \<times> lua_value) list" where
  "set_all t kvs = foldl (\<lambda>t (k, v). AList.update k v t) t kvs"

text \<open>
  For stating the round trip: the values of each wire type that come back as they went
  in. \<open>whole_number_in\<close> holds for a number without a fraction between two bounds,
  \<open>pair_string\<close> for a string without a byte 0 that is valid UTF-8.
  \<open>round_trip_value\<close> holds, by the wire type of the property, for

    \<^item> the numbers 0 and 1 under a byte property (\<^verbatim>\<open>mosquitto_property_check_all\<close>
      refuses a byte above 1);
    \<^item> the whole numbers up to 65535 under a 16-bit property, up to \<open>2^31 - 1\<close> under
      a 32-bit property and up to 268435455 under the variable-length property, in each
      case without 0 where \<^verbatim>\<open>mosquitto_property_check_all\<close> refuses 0
      (\<^verbatim>\<open>receive-maximum\<close>, \<^verbatim>\<open>topic-alias\<close>, \<^verbatim>\<open>maximum-packet-size\<close>);
    \<^item> a string without a byte 0 that is valid UTF-8 under a string property, and
      a string without a byte 0 of at most 65535 bytes under a binary property;
    \<^item> a table of pairs of such strings, not empty and with no key twice, under
      \<^verbatim>\<open>user-property\<close>.
\<close>

definition whole_number_in :: "int \<Rightarrow> int \<Rightarrow> lua_value \<Rightarrow> bool" where
  "whole_number_in lo hi v =
     (case v of
        LNumber d \<Rightarrow> d = of_int (towards_zero d) \<and> lo \<le> towards_zero d \<and> towards_zero d \<le> hi
      | _ \<Rightarrow> False)"

definition pair_string :: "world \<Rightarrow> lua_value \<Rightarrow> bool" where
  "pair_string w v =
     (case v of LString s \<Rightarrow> CHR 0x00 \<notin> set s \<and> utf8_valid w s | _ \<Rightarrow> False)"

definition round_trip_value :: "world \<Rightarrow> mqtt_prop_id \<Rightarrow> lua_value \<Rightarrow> bool" where
  "round_trip_value w ident v =
     (case property_type ident of
        MQTT_PROP_TYPE_BYTE \<Rightarrow> whole_number_in 0 1 v
      | MQTT_PROP_TYPE_INT16 \<Rightarrow>
          whole_number_in
            (if ident \<in> set [MQTT_PROP_RECEIVE_MAXIMUM, MQTT_PROP_TOPIC_ALIAS] then 1 else 0)
            65535 v
      | MQTT_PROP_TYPE_INT32 \<Rightarrow>
          whole_number_in (if ident = MQTT_PROP_MAXIMUM_PACKET_SIZE then 1 else 0) 2147483647 v
      | MQTT_PROP_TYPE_VARINT \<Rightarrow> whole_number_in 0 268435455 v
      | MQTT_PROP_TYPE_BINARY \<Rightarrow>
          (case v of LString s \<Rightarrow> CHR 0x00 \<notin> set s \<and> length s \<le> 65535 | _ \<Rightarrow> False)
      | MQTT_PROP_TYPE_STRING \<Rightarrow>
          (case v of LString s \<Rightarrow> CHR 0x00 \<notin> set s \<and> utf8_valid w s | _ \<Rightarrow> False)
      | MQTT_PROP_TYPE_STRING_PAIR \<Rightarrow>
          (case v of
             LTable t \<Rightarrow>
               t \<noteq> [] \<and> distinct (map fst t)
               \<and> list_all (\<lambda>(k, x). pair_string w k \<and> pair_string w x) t
           | _ \<Rightarrow> False))"

section \<open>The status translator and a caller of the codec\<close>

text \<open>\<^verbatim>\<open>mosq__pstatus\<close> (lines 96 to 128). The \<^verbatim>\<open>switch\<close> has no default case.\<close>

definition mosq__pstatus :: "world \<Rightarrow> int \<Rightarrow> outcome" where
  "mosq__pstatus w mosq_errno =
     (if mosq_errno = MOSQ_ERR_SUCCESS then Returns [LBoolean True]
      else if mosq_errno \<in> set [MOSQ_ERR_INVAL, MOSQ_ERR_NOMEM, MOSQ_ERR_PROTOCOL,
                                MOSQ_ERR_NOT_SUPPORTED] then
        Raises (mosquitto_strerror w mosq_errno)
      else if mosq_errno \<in> set [MOSQ_ERR_NO_CONN, MOSQ_ERR_CONN_LOST, MOSQ_ERR_PAYLOAD_SIZE] then
        Returns [LNil, lua_pushinteger mosq_errno, lua_pushstring (mosquitto_strerror w mosq_errno)]
      else if mosq_errno = MOSQ_ERR_ERRNO then
        Returns [LNil, lua_pushinteger (errno w), lua_pushstring (strerror w (errno w))]
      else Returns [])"

text \<open>
  \<^verbatim>\<open>lua_table_on_stack\<close> (lines 1746 to 1748); an argument that is absent is \<^verbatim>\<open>LNil\<close>
  here, and it is no table either.
\<close>

definition lua_table_on_stack :: "lua_value \<Rightarrow> bool" where
  "lua_table_on_stack v = (case v of LTable _ \<Rightarrow> True | _ \<Rightarrow> False)"

text \<open>
  What a call of \<^verbatim>\<open>ctx_publish_v5\<close> has done when it ends: how it ended, the property
  list it handed to \<^verbatim>\<open>mosquitto_publish_v5\<close> (if it got that far), and the properties
  that are still allocated and that nothing refers to any more.
\<close>

record publish_trace =
  result :: outcome
  handed :: "mosquitto_property list option"
  leaked :: "mosquitto_property list"

text \<open>
  \<^verbatim>\<open>ctx_publish_v5\<close> from line 844 on, after the basic parameters have been read.
  \<open>properties\<close> is the sixth argument; \<open>publish\<close> is \<^verbatim>\<open>mosquitto_publish_v5\<close> on the
  other arguments: from the property list to the return code and the message id.
\<close>

definition ctx_publish_v5 ::
  "world \<Rightarrow> (mosquitto_property list \<Rightarrow> int \<times> int) \<Rightarrow> lua_value \<Rightarrow> publish_trace" where
  "ctx_publish_v5 w publish properties =
     (case (if lua_table_on_stack properties
            then create_property_list_from_lua_stack w
                   (case properties of LTable t \<Rightarrow> t | _ \<Rightarrow> []) [] CMD_PUBLISH
            else Rc MOSQ_ERR_SUCCESS []) of
        LuaError msg pl \<Rightarrow> \<lparr>result = Raises msg, handed = None, leaked = pl\<rparr>
      | Rc rc pl \<Rightarrow>
          if rc \<noteq> MOSQ_ERR_SUCCESS
          then \<lparr>result = mosq__pstatus w rc, handed = None, leaked = pl\<rparr>
          else (case publish pl of
                  (rc', mid) \<Rightarrow>
                    \<lparr>result = (if rc' \<noteq> MOSQ_ERR_SUCCESS then mosq__pstatus w rc'
                                else Returns [lua_pushinteger mid]),
                     handed = Some pl, leaked = []\<rparr>))"

section \<open>Callback registration and dispatch\<close>

text \<open>\<^verbatim>\<open>enum callback_types\<close> (lines 51 to 65) and \<^verbatim>\<open>LUA_REFNIL\<close> of \<^verbatim>\<open>lauxlib.h\<close>.\<close>

definition CALLBACK_ON_CONNECT :: int where "CALLBACK_ON_CONNECT = 0"
definition CALLBACK_ON_CONNECT_V5 :: int where "CALLBACK_ON_CONNECT_V5 = 1"
definition CALLBACK_ON_DISCONNECT :: int where "CALLBACK_ON_DISCONNECT = 2"
definition CALLBACK_ON_DISCONNECT_V5 :: int where "CALLBACK_ON_DISCONNECT_V5 = 3"
definition CALLBACK_ON_PUBLISH :: int where "CALLBACK_ON_PUBLISH = 4"
definition CALLBACK_ON_PUBLISH_V5 :: int where "CALLBACK_ON_PUBLISH_V5 = 5"
definition CALLBACK_ON_MESSAGE :: int where "CALLBACK_ON_MESSAGE = 6"
definition CALLBACK_ON_MESSAGE_V5 :: int where "CALLBACK_ON_MESSAGE_V5 = 7"
definition CALLBACK_ON_SUBSCRIBE :: int where "CALLBACK_ON_SUBSCRIBE = 8"
definition CALLBACK_ON_SUBSCRIBE_V5 :: int where "CALLBACK_ON_SUBSCRIBE_V5 = 9"
definition CALLBACK_ON_UNSUBSCRIBE :: int where "CALLBACK_ON_UNSUBSCRIBE = 10"
definition CALLBACK_ON_UNSUBSCRIBE_V5 :: int where "CALLBACK_ON_UNSUBSCRIBE_V5 = 11"
definition CALLBACK_ON_LOG :: int where "CALLBACK_ON_LOG = 12"

definition LUA_REFNIL :: int where "LUA_REFNIL = - 1"

text \<open>\<^verbatim>\<open>ctx_t\<close> (lines 70 to 86): the thirteen slots that hold registry references.\<close>

record ctx_t =
  on_connect :: int
  on_connect_v5 :: int
  on_disconnect :: int
  on_disconnect_v5 :: int
  on_publish :: int
  on_publish_v5 :: int
  on_message :: int
  on_message_v5 :: int
  on_subscribe :: int
  on_subscribe_v5 :: int
  on_unsubscribe :: int
  on_unsubscribe_v5 :: int
  on_log :: int

text \<open>
  The reference system of \<^verbatim>\<open>lauxlib\<close> on the Lua registry: the values that are
  referenced, the references that were freed and are handed out again first, and the
  last fresh reference handed out.
\<close>

record lua_registry =
  refs :: "int \<rightharpoonup> lua_value"
  free_refs :: "int list"
  last_ref :: int

text \<open>
  \<^verbatim>\<open>luaL_ref\<close>: \<^verbatim>\<open>nil\<close> gets the fixed reference \<^verbatim>\<open>LUA_REFNIL\<close> and nothing is stored;
  any other value is stored under a reference that is not in use.
\<close>

definition luaL_ref :: "lua_registry \<Rightarrow> lua_value \<Rightarrow> int \<times> lua_registry" where
  "luaL_ref reg v =
     (if v = LNil then (LUA_REFNIL, reg)
      else
        (case free_refs reg of
           r # rs \<Rightarrow> (r, reg\<lparr>refs := (refs reg)(r \<mapsto> v), free_refs := rs\<rparr>)
         | [] \<Rightarrow>
             (last_ref reg + 1,
              reg\<lparr>refs := (refs reg)(last_ref reg + 1 \<mapsto> v), last_ref := last_ref reg + 1\<rparr>)))"

text \<open>\<^verbatim>\<open>luaL_unref\<close>: releases a reference; a negative one is left alone.\<close>

definition luaL_unref :: "lua_registry \<Rightarrow> int \<Rightarrow> lua_registry" where
  "luaL_unref reg r =
     (if r \<ge> 0 then reg\<lparr>refs := (refs reg)(r := None), free_refs := r # free_refs reg\<rparr>
      else reg)"

text \<open>\<^verbatim>\<open>lua_rawgeti(L, LUA_REGISTRYINDEX, r)\<close> pushes the value under \<open>r\<close>, or \<^verbatim>\<open>nil\<close>.\<close>

definition lua_rawgeti :: "lua_registry \<Rightarrow> int \<Rightarrow> lua_value" where
  "lua_rawgeti reg r = (case refs reg r of None \<Rightarrow> LNil | Some v \<Rightarrow> v)"

text \<open>
  A client: the context, the registry of its Lua state, and the callback types for
  which the \<^verbatim>\<open>struct mosquitto\<close> of the context holds the binding's C callback (set by
  the \<^verbatim>\<open>mosquitto_*_callback_set\<close> functions).
\<close>

record client =
  ctx :: ctx_t
  registry :: lua_registry
  mosq_callbacks :: "int set"

text \<open>\<^verbatim>\<open>ctx__on_init\<close> (lines 215 to 230).\<close>

definition ctx__on_init :: "ctx_t \<Rightarrow> ctx_t" where
  "ctx__on_init c =
     c\<lparr>on_connect := LUA_REFNIL, on_connect_v5 := LUA_REFNIL, on_disconnect := LUA_REFNIL,
       on_disconnect_v5 := LUA_REFNIL, on_publish := LUA_REFNIL, on_publish_v5 := LUA_REFNIL,
       on_message := LUA_REFNIL, on_message_v5 := LUA_REFNIL, on_subscribe := LUA_REFNIL,
       on_subscribe_v5 := LUA_REFNIL, on_unsubscribe := LUA_REFNIL,
       on_unsubscribe_v5 := LUA_REFNIL, on_log := LUA_REFNIL\<rparr>"

text \<open>\<^verbatim>\<open>ctx__on_clear\<close> (lines 232 to 247) releases the reference of every slot.\<close>

definition ctx__on_clear :: "ctx_t \<Rightarrow> lua_registry \<Rightarrow> lua_registry" where
  "ctx__on_clear c reg =
     foldl luaL_unref reg
       [on_connect c, on_connect_v5 c, on_disconnect c, on_disconnect_v5 c, on_publish c,
        on_publish_v5 c, on_message c, on_message_v5 c, on_subscribe c, on_subscribe_v5 c,
        on_unsubscribe c, on_unsubscribe_v5 c, on_log c]"

text \<open>A registry with no reference in use, and a userdata whose memory is all zero.\<close>

definition empty_registry :: lua_registry where
  "empty_registry = \<lparr>refs = Map.empty, free_refs = [], last_ref = 0\<rparr>"

definition zeroed_ctx :: ctx_t where
  "zeroed_ctx =
     \<lparr>on_connect = 0, on_connect_v5 = 0, on_disconnect = 0, on_disconnect_v5 = 0,
      on_publish = 0, on_publish_v5 = 0, on_message = 0, on_message_v5 = 0,
      on_subscribe = 0, on_subscribe_v5 = 0, on_unsubscribe = 0, on_unsubscribe_v5 = 0,
      on_log = 0\<rparr>"

text \<open>
  \<^verbatim>\<open>mosq_new\<close> (lines 258 to 283) where \<^verbatim>\<open>mosquitto_new\<close> succeeds: the userdata
  (whatever its memory held) with its slots initialised, and a \<^verbatim>\<open>struct mosquitto\<close> with
  no callback set.
\<close>

definition mosq_new :: "ctx_t \<Rightarrow> lua_registry \<Rightarrow> client" where
  "mosq_new mem reg = \<lparr>ctx = ctx__on_init mem, registry = reg, mosq_callbacks = {}\<rparr>"

text \<open>
  The table \<^verbatim>\<open>D\<close> (lines 1588 to 1633); the values of the libmosquitto constants are
  those of \<^verbatim>\<open>mosquitto.h\<close> and \<^verbatim>\<open>mqtt_protocol.h\<close>.
\<close>

definition D :: "(string \<times> int) list" where
  "D =
     [(''ON_CONNECT'', CALLBACK_ON_CONNECT),
      (''ON_CONNECT_V5'', CALLBACK_ON_CONNECT_V5),
      (''ON_DISCONNECT'', CALLBACK_ON_DISCONNECT),
      (''ON_DISCONNECT_V5'', CALLBACK_ON_DISCONNECT_V5),
      (''ON_PUBLISH'', CALLBACK_ON_PUBLISH),
      (''ON_PUBLISH_V5'', CALLBACK_ON_PUBLISH_V5),
      (''ON_MESSAGE'', CALLBACK_ON_MESSAGE),
      (''ON_MESSAGE_V5'', CALLBACK_ON_MESSAGE_V5),
      (''ON_SUBSCRIBE'', CALLBACK_ON_SUBSCRIBE),
      (''ON_SUBSCRIBE_V5'', CALLBACK_ON_SUBSCRIBE_V5),
      (''ON_UNSUBSCRIBE'', CALLBACK_ON_UNSUBSCRIBE),
      (''ON_UNSUBSCRIBE_V5'', CALLBACK_ON_UNSUBSCRIBE_V5),
      (''ON_LOG'', CALLBACK_ON_LOG),
      (''LOG_NONE'', 0), (''LOG_INFO'', 1), (''LOG_NOTICE'', 2), (''LOG_WARNING'', 4),
      (''LOG_ERROR'', 8), (''LOG_DEBUG'', 16), (''LOG_ALL'', - 1),
      (''OPT_PROTOCOL_VERSION'', 1), (''OPT_SSL_CTX'', 2),
      (''OPT_SSL_CTX_WITH_DEFAULTS'', 3), (''OPT_RECEIVE_MAXIMUM'', 4),
      (''OPT_SEND_MAXIMUM'', 5), (''OPT_TLS_KEYFORM'', 6), (''OPT_TLS_ENGINE'', 7),
      (''OPT_TLS_ENGINE_KPASS_SHA1'', 8), (''OPT_TLS_OCSP_REQUIRED'', 9),
      (''OPT_TLS_ALPN'', 10),
      (''MQTT_PROTOCOL_V31'', 3), (''MQTT_PROTOCOL_V311'', 4), (''MQTT_PROTOCOL_V5'', 5),
      (''MQTT_SUB_OPT_NO_LOCAL'', 4), (''MQTT_SUB_OPT_RETAIN_AS_PUBLISHED'', 8),
      (''MQTT_SUB_OPT_SEND_RETAIN_ALWAYS'', 0), (''MQTT_SUB_OPT_SEND_RETAIN_NEW'', 16),
      (''MQTT_SUB_OPT_SEND_RETAIN_NEVER'', 32)]"

text \<open>
  \<^verbatim>\<open>callback_type_from_string\<close> (lines 1864 to 1876): -1 unless the string starts with
  \<^verbatim>\<open>ON_\<close>; then the value of the first entry of \<^verbatim>\<open>D\<close> with that name, or -1.
\<close>

definition callback_type_from_string :: "string \<Rightarrow> int" where
  "callback_type_from_string typestr =
     (if take 3 (cstring typestr) \<noteq> ''ON_'' then - 1
      else (case map_of D (cstring typestr) of Some v \<Rightarrow> v | None \<Rightarrow> - 1))"

text \<open>
  The callback type \<^verbatim>\<open>ctx_callback_set\<close> reads from its second argument (lines 1429 to
  1433). \<^verbatim>\<open>lua_isstring\<close> holds for strings and for numbers; for a number
  \<^verbatim>\<open>lua_tostring\<close> yields its printed form. For any other value \<^verbatim>\<open>luaL_checkinteger\<close>
  raises an error (\<^verbatim>\<open>None\<close>).
\<close>

definition selected_callback_type :: "world \<Rightarrow> lua_value \<Rightarrow> int option" where
  "selected_callback_type w sel =
     (case sel of
        LString s \<Rightarrow> Some (callback_type_from_string s)
      | LNumber n \<Rightarrow> Some (callback_type_from_string (lua_number_tostring w n))
      | _ \<Rightarrow> None)"

text \<open>
  The assignment of the \<^verbatim>\<open>switch\<close> in \<^verbatim>\<open>ctx_callback_set\<close> (lines 1442 to 1512):
  the slot of the callback type takes the reference; \<^verbatim>\<open>None\<close> is the default case.
\<close>

definition store_ref :: "int \<Rightarrow> int \<Rightarrow> ctx_t \<Rightarrow> ctx_t option" where
  "store_ref callback_type r c =
     (if callback_type = CALLBACK_ON_CONNECT then Some (c\<lparr>on_connect := r\<rparr>)
      else if callback_type = CALLBACK_ON_CONNECT_V5 then Some (c\<lparr>on_connect_v5 := r\<rparr>)
      else if callback_type = CALLBACK_ON_DISCONNECT then Some (c\<lparr>on_disconnect := r\<rparr>)
      else if callback_type = CALLBACK_ON_DISCONNECT_V5 then Some (c\<lparr>on_disconnect_v5 := r\<rparr>)
      else if callback_type = CALLBACK_ON_PUBLISH then Some (c\<lparr>on_publish := r\<rparr>)
      else if callback_type = CALLBACK_ON_PUBLISH_V5 then Some (c\<lparr>on_publish_v5 := r\<rparr>)
      else if callback_type = CALLBACK_ON_MESSAGE then Some (c\<lparr>on_message := r\<rparr>)
      else if callback_type = CALLBACK_ON_MESSAGE_V5 then Some (c\<lparr>on_message_v5 := r\<rparr>)
      else if callback_type = CALLBACK_ON_SUBSCRIBE then Some (c\<lparr>on_subscribe := r\<rparr>)
      else if callback_type = CALLBACK_ON_SUBSCRIBE_V5 then Some (c\<lparr>on_subscribe_v5 := r\<rparr>)
      else if callback_type = CALLBACK_ON_UNSUBSCRIBE then Some (c\<lparr>on_unsubscribe := r\<rparr>)
      else if callback_type = CALLBACK_ON_UNSUBSCRIBE_V5 then Some (c\<lparr>on_unsubscribe_v5 := r\<rparr>)
      else if callback_type = CALLBACK_ON_LOG then Some (c\<lparr>on_log := r\<rparr>)
      else None)"

text \<open>
  \<^verbatim>\<open>ctx_callback_set\<close> (lines 1424 to 1515), called with the client, the selector
  (argument 2), argument 3 and the arguments after it. \<^verbatim>\<open>luaL_ref\<close> takes the value on
  top of the stack, the last argument. Each case of the \<^verbatim>\<open>switch\<close> stores the reference
  in its slot and sets the C callback of that type in libmosquitto; the default case
  releases the reference and raises.
\<close>

definition ctx_callback_set ::
  "world \<Rightarrow> client \<Rightarrow> lua_value \<Rightarrow> lua_value \<Rightarrow> lua_value list \<Rightarrow> outcome \<times> client" where
  "ctx_callback_set w c sel f extra =
     (case selected_callback_type w sel of
        None \<Rightarrow> (Raises ''number expected'', c)
      | Some callback_type \<Rightarrow>
          (case f of
             LFunction _ \<Rightarrow>
               (case luaL_ref (registry c) (last (f # extra)) of
                  (r, reg) \<Rightarrow>
                    (case store_ref callback_type r (ctx c) of
                       Some c' \<Rightarrow>
                         (mosq__pstatus w MOSQ_ERR_SUCCESS,
                          c\<lparr>ctx := c', registry := reg,
                            mosq_callbacks := insert callback_type (mosq_callbacks c)\<rparr>)
                     | None \<Rightarrow>
                         (Raises ''not a proper callback type'',
                          c\<lparr>registry := luaL_unref reg r\<rparr>)))
           | _ \<Rightarrow> (Raises ''expecting a callback function'', c)))"

text \<open>
  \<^verbatim>\<open>lua_call(L, nargs, 0)\<close> on a stack (bottom first): the value below the arguments is
  called. Calling a function runs the handler with the arguments (\<open>Called\<close>); calling
  anything else raises the Lua error "attempt to call a ... value" (\<open>CallError\<close>).
\<close>

datatype call_exit = Called lua_value "lua_value list" | CallError lua_value

definition lua_call :: "lua_value list \<Rightarrow> nat \<Rightarrow> call_exit" where
  "lua_call stack nargs =
     (case rev (take (length stack - nargs) stack) of
        [] \<Rightarrow> CallError LNil
      | LFunction h # _ \<Rightarrow> Called (LFunction h) (drop (length stack - nargs) stack)
      | v # _ \<Rightarrow> CallError v)"

text \<open>\<^verbatim>\<open>struct mosquitto_message\<close>, the fields the binding reads.\<close>

record mosquitto_message =
  mid :: int
  topic :: string
  payload :: string
  qos :: int
  retain :: bool

text \<open>
  The C callbacks (lines 1177 to 1420). Each pushes the value its slot refers to, then
  the arguments, and calls.
\<close>

definition ctx_on_connect :: "world \<Rightarrow> client \<Rightarrow> int \<Rightarrow> call_exit" where
  "ctx_on_connect w c rc =
     lua_call [lua_rawgeti (registry c) (on_connect (ctx c)), LBoolean (rc = 0),
               lua_pushinteger rc, lua_pushstring (mosquitto_connack_string w rc)] 3"

definition ctx_on_connect_v5 ::
  "world \<Rightarrow> client \<Rightarrow> int \<Rightarrow> int \<Rightarrow> mosquitto_property list \<Rightarrow> call_exit" where
  "ctx_on_connect_v5 w c reason_code flags props =
     lua_call ([lua_rawgeti (registry c) (on_connect_v5 (ctx c)), LBoolean (reason_code = 0),
                lua_pushinteger reason_code,
                lua_pushstring (mosquitto_reason_string w reason_code), lua_pushinteger flags]
               @ snd (create_lua_stack_from_property_list w props)) 5"

definition ctx_on_disconnect :: "world \<Rightarrow> client \<Rightarrow> int \<Rightarrow> call_exit" where
  "ctx_on_disconnect w c rc =
     lua_call [lua_rawgeti (registry c) (on_disconnect (ctx c)), LBoolean (rc = 0),
               lua_pushinteger rc,
               lua_pushstring (if rc \<noteq> 0 then ''unexpected disconnect''
                               else ''client-initiated disconnect'')] 3"

definition ctx_on_disconnect_v5 ::
  "world \<Rightarrow> client \<Rightarrow> int \<Rightarrow> mosquitto_property list \<Rightarrow> call_exit" where
  "ctx_on_disconnect_v5 w c rc props =
     lua_call ([lua_rawgeti (registry c) (on_disconnect_v5 (ctx c)), LBoolean (rc = 0),
                lua_pushinteger rc,
                lua_pushstring (if rc \<noteq> 0 then ''unexpected disconnect''
                                else ''client-initiated disconnect'')]
               @ snd (create_lua_stack_from_property_list w props)) 4"

definition ctx_on_publish :: "world \<Rightarrow> client \<Rightarrow> int \<Rightarrow> call_exit" where
  "ctx_on_publish w c m =
     lua_call [lua_rawgeti (registry c) (on_publish (ctx c)), lua_pushinteger m] 1"

definition ctx_on_publish_v5 ::
  "world \<Rightarrow> client \<Rightarrow> int \<Rightarrow> int \<Rightarrow> mosquitto_property list \<Rightarrow> call_exit" where
  "ctx_on_publish_v5 w c m reason_code props =
     lua_call ([lua_rawgeti (registry c) (on_publish_v5 (ctx c)), lua_pushinteger m,
                lua_pushinteger reason_code,
                lua_pushstring (mosquitto_reason_string w reason_code)]
               @ snd (create_lua_stack_from_property_list w props)) 4"

definition ctx_on_message :: "world \<Rightarrow> client \<Rightarrow> mosquitto_message \<Rightarrow> call_exit" where
  "ctx_on_message w c msg =
     lua_call [lua_rawgeti (registry c) (on_message (ctx c)), lua_pushinteger (mid msg),
               lua_pushstring (topic msg),
               lua_pushlstring (payload msg) (length (payload msg)),
               lua_pushinteger (qos msg), LBoolean (retain msg)] 5"

definition ctx_on_message_v5 ::
  "world \<Rightarrow> client \<Rightarrow> mosquitto_message \<Rightarrow> mosquitto_property list \<Rightarrow> call_exit" where
  "ctx_on_message_v5 w c msg props =
     lua_call ([lua_rawgeti (registry c) (on_message_v5 (ctx c)), lua_pushinteger (mid msg),
                lua_pushstring (topic msg),
                lua_pushlstring (payload msg) (length (payload msg)),
                lua_pushinteger (qos msg), LBoolean (retain msg)]
               @ snd (create_lua_stack_from_property_list w props)) 6"

definition ctx_on_subscribe :: "world \<Rightarrow> client \<Rightarrow> int \<Rightarrow> int list \<Rightarrow> call_exit" where
  "ctx_on_subscribe w c m granted_qos =
     lua_call ([lua_rawgeti (registry c) (on_subscribe (ctx c)), lua_pushinteger m]
               @ map lua_pushinteger granted_qos) (length granted_qos + 1)"

definition ctx_on_subscribe_v5 ::
  "world \<Rightarrow> client \<Rightarrow> int \<Rightarrow> int list \<Rightarrow> mosquitto_property list \<Rightarrow> call_exit" where
  "ctx_on_subscribe_v5 w c m granted_qos props =
     lua_call ([lua_rawgeti (registry c) (on_subscribe_v5 (ctx c)), lua_pushinteger m]
               @ snd (create_lua_stack_from_property_list w props)
               @ map lua_pushinteger granted_qos) (length granted_qos + 2)"

definition ctx_on_unsubscribe :: "world \<Rightarrow> client \<Rightarrow> int \<Rightarrow> call_exit" where
  "ctx_on_unsubscribe w c m =
     lua_call [lua_rawgeti (registry c) (on_unsubscribe (ctx c)), lua_pushinteger m] 1"

definition ctx_on_unsubscribe_v5 ::
  "world \<Rightarrow> client \<Rightarrow> int \<Rightarrow> mosquitto_property list \<Rightarrow> call_exit" where
  "ctx_on_unsubscribe_v5 w c m props =
     lua_call ([lua_rawgeti (registry c) (on_unsubscribe_v5 (ctx c)), lua_pushinteger m]
               @ snd (create_lua_stack_from_property_list w props)) 2"

definition ctx_on_log :: "world \<Rightarrow> client \<Rightarrow> int \<Rightarrow> string \<Rightarrow> call_exit" where
  "ctx_on_log w c level str =
     lua_call [lua_rawgeti (registry c) (on_log (ctx c)), lua_pushinteger level,
               lua_pushstring str] 2"

text \<open>An event of libmosquitto with what it passes to the callback.\<close>

datatype mosq_event =
    Connect int
  | Connect_v5 int int "mosquitto_property list"
  | Disconnect int
  | Disconnect_v5 int "mosquitto_property list"
  | Publish int
  | Publish_v5 int int "mosquitto_property list"
  | Message mosquitto_message
  | Message_v5 mosquitto_message "mosquitto_property list"
  | Subscribe int "int list"
  | Subscribe_v5 int "int list" "mosquitto_property list"
  | Unsubscribe int
  | Unsubscribe_v5 int "mosquitto_property list"
  | Log int string

fun event_type :: "mosq_event \<Rightarrow> int" where
  "event_type (Connect _) = CALLBACK_ON_CONNECT"
| "event_type (Connect_v5 _ _ _) = CALLBACK_ON_CONNECT_V5"
| "event_type (Disconnect _) = CALLBACK_ON_DISCONNECT"
| "event_type (Disconnect_v5 _ _) = CALLBACK_ON_DISCONNECT_V5"
| "event_type (Publish _) = CALLBACK_ON_PUBLISH"
| "event_type (Publish_v5 _ _ _) = CALLBACK_ON_PUBLISH_V5"
| "event_type (Message _) = CALLBACK_ON_MESSAGE"
| "event_type (Message_v5 _ _) = CALLBACK_ON_MESSAGE_V5"
| "event_type (Subscribe _ _) = CALLBACK_ON_SUBSCRIBE"
| "event_type (Subscribe_v5 _ _ _) = CALLBACK_ON_SUBSCRIBE_V5"
| "event_type (Unsubscribe _) = CALLBACK_ON_UNSUBSCRIBE"
| "event_type (Unsubscribe_v5 _ _) = CALLBACK_ON_UNSUBSCRIBE_V5"
| "event_type (Log _ _) = CALLBACK_ON_LOG"

text \<open>The C callback that \<^verbatim>\<open>ctx_callback_set\<close> sets for the type of an event.\<close>

fun c_callback :: "world \<Rightarrow> client \<Rightarrow> mosq_event \<Rightarrow> call_exit" where
  "c_callback w c (Connect rc) = ctx_on_connect w c rc"
| "c_callback w c (Connect_v5 rc flags props) = ctx_on_connect_v5 w c rc flags props"
| "c_callback w c (Disconnect rc) = ctx_on_disconnect w c rc"
| "c_callback w c (Disconnect_v5 rc props) = ctx_on_disconnect_v5 w c rc props"
| "c_callback w c (Publish m) = ctx_on_publish w c m"
| "c_callback w c (Publish_v5 m rc props) = ctx_on_publish_v5 w c m rc props"
| "c_callback w c (Message msg) = ctx_on_message w c msg"
| "c_callback w c (Message_v5 msg props) = ctx_on_message_v5 w c msg props"
| "c_callback w c (Subscribe m granted) = ctx_on_subscribe w c m granted"
| "c_callback w c (Subscribe_v5 m granted props) = ctx_on_subscribe_v5 w c m granted props"
| "c_callback w c (Unsubscribe m) = ctx_on_unsubscribe w c m"
| "c_callback w c (Unsubscribe_v5 m props) = ctx_on_unsubscribe_v5 w c m props"
| "c_callback w c (Log level str) = ctx_on_log w c level str"

text \<open>
  How libmosquitto delivers an event: it calls the C callback set for the type of the
  event; where none is set it calls nothing (\<^verbatim>\<open>None\<close>).
\<close>

definition deliver :: "world \<Rightarrow> client \<Rightarrow> mosq_event \<Rightarrow> call_exit option" where
  "deliver w c ev =
     (if event_type ev \<in> mosq_callbacks c then Some (c_callback w c ev) else None)"

text \<open>A run of calls of \<^verbatim>\<open>ctx_callback_set\<close>, each with its arguments, whatever each returns.\<close>

fun callback_sets ::
  "world \<Rightarrow> client \<Rightarrow> (lua_value \<times> lua_value \<times> lua_value list) list \<Rightarrow> client" where
  "callback_sets w c [] = c"
| "callback_sets w c ((sel, f, extra) # calls) =
     callback_sets w (snd (ctx_callback_set w c sel f extra)) calls"


section \<open>Facts\<close>

lemmas mosq_err_defs =
  MOSQ_ERR_SUCCESS_def MOSQ_ERR_NOMEM_def MOSQ_ERR_PROTOCOL_def MOSQ_ERR_INVAL_def
  MOSQ_ERR_NO_CONN_def MOSQ_ERR_CONN_LOST_def MOSQ_ERR_PAYLOAD_SIZE_def
  MOSQ_ERR_NOT_SUPPORTED_def MOSQ_ERR_ERRNO_def MOSQ_ERR_CONN_REFUSED_def
  MOSQ_ERR_EAI_def MOSQ_ERR_MALFORMED_UTF8_def MOSQ_ERR_DUPLICATE_PROPERTY_def

subsection \<open>The status translator\<close>

text \<open>
  The nine codes the \<^verbatim>\<open>switch\<close> names get the outcomes of the three shapes; every
  other code gets none of them.
\<close>

lemma pstatus_named_codes:
  "mosq__pstatus w MOSQ_ERR_SUCCESS = Returns [LBoolean True]"
  "mosq__pstatus w MOSQ_ERR_INVAL = Raises (mosquitto_strerror w MOSQ_ERR_INVAL)"
  "mosq__pstatus w MOSQ_ERR_NOMEM = Raises (mosquitto_strerror w MOSQ_ERR_NOMEM)"
  "mosq__pstatus w MOSQ_ERR_PROTOCOL = Raises (mosquitto_strerror w MOSQ_ERR_PROTOCOL)"
  "mosq__pstatus w MOSQ_ERR_NOT_SUPPORTED = Raises (mosquitto_strerror w MOSQ_ERR_NOT_SUPPORTED)"
  "mosq__pstatus w MOSQ_ERR_NO_CONN =
     Returns [LNil, lua_pushinteger MOSQ_ERR_NO_CONN,
              lua_pushstring (mosquitto_strerror w MOSQ_ERR_NO_CONN)]"
  "mosq__pstatus w MOSQ_ERR_CONN_LOST =
     Returns [LNil, lua_pushinteger MOSQ_ERR_CONN_LOST,
              lua_pushstring (mosquitto_strerror w MOSQ_ERR_CONN_LOST)]"
  "mosq__pstatus w MOSQ_ERR_PAYLOAD_SIZE =
     Returns [LNil, lua_pushinteger MOSQ_ERR_PAYLOAD_SIZE,
              lua_pushstring (mosquitto_strerror w MOSQ_ERR_PAYLOAD_SIZE)]"
  "mosq__pstatus w MOSQ_ERR_ERRNO =
     Returns [LNil, lua_pushinteger (errno w), lua_pushstring (strerror w (errno w))]"
  by (simp_all add: mosq__pstatus_def mosq_err_defs)

lemma pstatus_other_codes:
  "c \<notin> set [MOSQ_ERR_SUCCESS, MOSQ_ERR_INVAL, MOSQ_ERR_NOMEM, MOSQ_ERR_PROTOCOL,
              MOSQ_ERR_NOT_SUPPORTED, MOSQ_ERR_NO_CONN, MOSQ_ERR_CONN_LOST,
              MOSQ_ERR_PAYLOAD_SIZE, MOSQ_ERR_ERRNO] \<Longrightarrow>
   mosq__pstatus w c = Returns []"
  by (simp add: mosq__pstatus_def)

text \<open>
  \<^bold>\<open>C1\<close>. The claim gives every result code one of three outcomes: the success
  value, \<^verbatim>\<open>nil\<close> with a code and a message, or a raised error, the last for every code
  that is not named. The \<^verbatim>\<open>switch\<close> of \<^verbatim>\<open>mosq__pstatus\<close> has no default case: a code
  that it does not name, such as \<^verbatim>\<open>MOSQ_ERR_EAI\<close> (the host name of a connect did not
  resolve), falls through to \<^verbatim>\<open>return 0\<close>, and the Lua caller gets no value at all,
  neither an error nor \<^verbatim>\<open>nil\<close> with a code and a message.
\<close>

theorem pstatus_unnamed_code_returns_nothing:
  "mosq__pstatus w MOSQ_ERR_EAI = Returns []"
  by (simp add: mosq__pstatus_def mosq_err_defs)

subsection \<open>Encoding: what a failure leaves behind\<close>

lemma encode_number_into_string_property:
  "create_property_list_from_lua_stack plain_world
     [(LString ''message-expiry-interval'', LNumber 5), (LString ''content-type'', LNumber 7)]
     [] CMD_PUBLISH
   = Rc MOSQ_ERR_INVAL [(property_calloc MQTT_PROP_MESSAGE_EXPIRY_INTERVAL)\<lparr>value_i32 := 5\<rparr>]"
  by code_simp

text \<open>
  \<^bold>\<open>C2\<close>. The claim: whenever encoding fails, every property built so far is released
  before the failure is returned, and no caller hands a partial list to libmosquitto.
  A value whose Lua type does not fit the wire type of its property (here a number for
  \<^verbatim>\<open>content-type\<close>) leaves \<^verbatim>\<open>create_property_list_from_lua_stack\<close> through the
  \<^verbatim>\<open>return MOSQ_ERR_INVAL\<close> of the \<^verbatim>\<open>default\<close> case, past the
  \<^verbatim>\<open>mosquitto_property_free_all\<close> at the end of the function. With the table visited
  in the order shown, \<^verbatim>\<open>ctx_publish_v5\<close> raises without calling
  \<^verbatim>\<open>mosquitto_publish_v5\<close>, and the property built for \<^verbatim>\<open>message-expiry-interval\<close>
  is never released.
\<close>

theorem publish_v5_type_mismatch_leaks_property:
  "ctx_publish_v5 plain_world publish
     (LTable [(LString ''message-expiry-interval'', LNumber 5),
              (LString ''content-type'', LNumber 7)])
   = \<lparr>result = Raises (mosquitto_strerror plain_world MOSQ_ERR_INVAL), handed = None,
      leaked = [(property_calloc MQTT_PROP_MESSAGE_EXPIRY_INTERVAL)\<lparr>value_i32 := 5\<rparr>]\<rparr>"
  by (simp add: ctx_publish_v5_def lua_table_on_stack_def encode_number_into_string_property
      mosq__pstatus_def mosq_err_defs)

text \<open>
  The other half of C2 holds for \<^verbatim>\<open>ctx_publish_v5\<close>: a list reaches
  \<^verbatim>\<open>mosquitto_publish_v5\<close> only as the result of an encoding that succeeded (or as
  the empty list, when no table was given).
\<close>

lemma publish_v5_hands_only_encoded_lists:
  assumes "handed (ctx_publish_v5 w publish (LTable t)) = Some pl"
  shows "create_property_list_from_lua_stack w t [] CMD_PUBLISH = Rc MOSQ_ERR_SUCCESS pl"
  using assms
  by (auto simp: ctx_publish_v5_def lua_table_on_stack_def
      split: encode_exit.splits if_splits prod.splits)

text \<open>
  \<^bold>\<open>C9\<close>. The claim: encoding an empty table always succeeds and yields the empty
  list. For an empty table the loop body never runs, so \<^verbatim>\<open>rc\<close>, declared without a
  value, is read uninitialised by \<^verbatim>\<open>if (rc != MOSQ_ERR_SUCCESS)\<close>: the function
  succeeds only if that memory happens to hold 0, and returns whatever it holds
  otherwise.
\<close>

theorem encode_empty_table_returns_uninitialised_rc:
  "create_property_list_from_lua_stack w [] [] command =
     (if uninitialised_int w \<noteq> MOSQ_ERR_SUCCESS then Rc (uninitialised_int w) []
      else Rc MOSQ_ERR_SUCCESS [])"
  by (simp add: create_property_list_from_lua_stack_def)

subsection \<open>Encoding: numbers\<close>

lemma double_to_int_in_range:
  "INT_MIN \<le> towards_zero d \<Longrightarrow> towards_zero d \<le> INT_MAX \<Longrightarrow>
   double_to_int w d = towards_zero d"
  by (simp add: double_to_int_def)

lemma uint32_never_above_max: "\<not> UINT32_MAX < uint (x :: 32 word)"
  using uint_lt2p [of x] by (simp add: UINT32_MAX_def)

lemma uint_of_nonnegative_int:
  "0 \<le> t \<Longrightarrow> t \<le> INT_MAX \<Longrightarrow> uint (word_of_int t :: 32 word) = t"
  by (simp add: uint_word_of_int INT_MAX_def)

text \<open>
  \<^bold>\<open>C5\<close>, as amended. The number is first converted to a C \<^verbatim>\<open>int\<close>, which drops its
  fraction. Where the result fits an \<^verbatim>\<open>int\<close>, it is checked before anything is added
  to the list: a negative one is rejected with \<^verbatim>\<open>MOSQ_ERR_INVAL\<close> for every wire type,
  and so is one above 255 for a byte, above 65535 for a 16-bit integer and above
  268435455 for a variable-length integer (the last bound is libmosquitto's); every
  other one is stored, for a 32-bit integer every one from 0 on. Numbers whose integer
  part does not fit an \<^verbatim>\<open>int\<close> are left out of the statement.
\<close>

theorem numeric_value_range_check:
  assumes "INT_MIN \<le> towards_zero d" and "towards_zero d \<le> INT_MAX"
  shows
    "(property_type ident = MQTT_PROP_TYPE_BYTE \<longrightarrow>
        property_from_number w pl ident MQTT_PROP_TYPE_BYTE d =
          (if towards_zero d < 0 \<or> 255 < towards_zero d then Step MOSQ_ERR_INVAL pl
           else if alloc_ok w pl ((property_calloc ident)\<lparr>value_i8 := word_of_int (towards_zero d)\<rparr>)
             then Step MOSQ_ERR_SUCCESS
                    (pl @ [(property_calloc ident)\<lparr>value_i8 := word_of_int (towards_zero d)\<rparr>])
           else Step MOSQ_ERR_NOMEM pl))
     \<and> (property_type ident = MQTT_PROP_TYPE_INT16 \<longrightarrow>
        property_from_number w pl ident MQTT_PROP_TYPE_INT16 d =
          (if towards_zero d < 0 \<or> 65535 < towards_zero d then Step MOSQ_ERR_INVAL pl
           else if alloc_ok w pl ((property_calloc ident)\<lparr>value_i16 := word_of_int (towards_zero d)\<rparr>)
             then Step MOSQ_ERR_SUCCESS
                    (pl @ [(property_calloc ident)\<lparr>value_i16 := word_of_int (towards_zero d)\<rparr>])
           else Step MOSQ_ERR_NOMEM pl))
     \<and> (property_type ident = MQTT_PROP_TYPE_INT32 \<longrightarrow>
        property_from_number w pl ident MQTT_PROP_TYPE_INT32 d =
          (if towards_zero d < 0 then Step MOSQ_ERR_INVAL pl
           else if alloc_ok w pl ((property_calloc ident)\<lparr>value_i32 := word_of_int (towards_zero d)\<rparr>)
             then Step MOSQ_ERR_SUCCESS
                    (pl @ [(property_calloc ident)\<lparr>value_i32 := word_of_int (towards_zero d)\<rparr>])
           else Step MOSQ_ERR_NOMEM pl))
     \<and> (property_type ident = MQTT_PROP_TYPE_VARINT \<longrightarrow>
        property_from_number w pl ident MQTT_PROP_TYPE_VARINT d =
          (if towards_zero d < 0 \<or> 268435455 < towards_zero d then Step MOSQ_ERR_INVAL pl
           else if alloc_ok w pl ((property_calloc ident)\<lparr>value_varint := word_of_int (towards_zero d)\<rparr>)
             then Step MOSQ_ERR_SUCCESS
                    (pl @ [(property_calloc ident)\<lparr>value_varint := word_of_int (towards_zero d)\<rparr>])
           else Step MOSQ_ERR_NOMEM pl))"
proof -
  have v: "double_to_int w d = towards_zero d"
    using assms by (rule double_to_int_in_range)
  have byte: "property_type ident = MQTT_PROP_TYPE_BYTE \<Longrightarrow>
        property_from_number w pl ident MQTT_PROP_TYPE_BYTE d =
          (if towards_zero d < 0 \<or> 255 < towards_zero d then Step MOSQ_ERR_INVAL pl
           else if alloc_ok w pl ((property_calloc ident)\<lparr>value_i8 := word_of_int (towards_zero d)\<rparr>)
             then Step MOSQ_ERR_SUCCESS
                    (pl @ [(property_calloc ident)\<lparr>value_i8 := word_of_int (towards_zero d)\<rparr>])
           else Step MOSQ_ERR_NOMEM pl)"
    by (simp add: property_from_number_def v UINT8_MAX_def mosquitto_property_add_byte_def
        property__add_def)
  have int16: "property_type ident = MQTT_PROP_TYPE_INT16 \<Longrightarrow>
        property_from_number w pl ident MQTT_PROP_TYPE_INT16 d =
          (if towards_zero d < 0 \<or> 65535 < towards_zero d then Step MOSQ_ERR_INVAL pl
           else if alloc_ok w pl ((property_calloc ident)\<lparr>value_i16 := word_of_int (towards_zero d)\<rparr>)
             then Step MOSQ_ERR_SUCCESS
                    (pl @ [(property_calloc ident)\<lparr>value_i16 := word_of_int (towards_zero d)\<rparr>])
           else Step MOSQ_ERR_NOMEM pl)"
    by (simp add: property_from_number_def v UINT16_MAX_def mosquitto_property_add_int16_def
        property__add_def)
  have int32: "property_type ident = MQTT_PROP_TYPE_INT32 \<Longrightarrow>
        property_from_number w pl ident MQTT_PROP_TYPE_INT32 d =
          (if towards_zero d < 0 then Step MOSQ_ERR_INVAL pl
           else if alloc_ok w pl ((property_calloc ident)\<lparr>value_i32 := word_of_int (towards_zero d)\<rparr>)
             then Step MOSQ_ERR_SUCCESS
                    (pl @ [(property_calloc ident)\<lparr>value_i32 := word_of_int (towards_zero d)\<rparr>])
           else Step MOSQ_ERR_NOMEM pl)"
    by (simp add: property_from_number_def v uint32_never_above_max
        mosquitto_property_add_int32_def property__add_def)
  have varint: "property_type ident = MQTT_PROP_TYPE_VARINT \<Longrightarrow>
        property_from_number w pl ident MQTT_PROP_TYPE_VARINT d =
          (if towards_zero d < 0 \<or> 268435455 < towards_zero d then Step MOSQ_ERR_INVAL pl
           else if alloc_ok w pl ((property_calloc ident)\<lparr>value_varint := word_of_int (towards_zero d)\<rparr>)
             then Step MOSQ_ERR_SUCCESS
                    (pl @ [(property_calloc ident)\<lparr>value_varint := word_of_int (towards_zero d)\<rparr>])
           else Step MOSQ_ERR_NOMEM pl)"
    using assms(2)
    by (simp add: property_from_number_def v uint32_never_above_max
        mosquitto_property_add_varint_def property__add_def uint_of_nonnegative_int)
  from byte int16 int32 varint show ?thesis
    by blast
qed

lemma towards_zero_300: "towards_zero 300 = 300"
  by code_simp

lemma towards_zero_70000: "towards_zero 70000 = 70000"
  by code_simp

lemma towards_zero_minus_1: "towards_zero (- 1) = - 1"
  by code_simp

lemma towards_zero_2_28: "towards_zero 268435456 = 268435456"
  by code_simp

text \<open>
  The theorem for C5 at one value outside the range of each wire type: 300 for a
  byte, 70000 for a 16-bit integer, -1 for a 32-bit integer, 268435456 for a
  variable-length integer.
\<close>

theorem numeric_value_range_check_witness:
  "property_from_number plain_world [] MQTT_PROP_PAYLOAD_FORMAT_INDICATOR MQTT_PROP_TYPE_BYTE 300
     = Step MOSQ_ERR_INVAL []
   \<and> property_from_number plain_world [] MQTT_PROP_TOPIC_ALIAS MQTT_PROP_TYPE_INT16 70000
     = Step MOSQ_ERR_INVAL []
   \<and> property_from_number plain_world [] MQTT_PROP_MESSAGE_EXPIRY_INTERVAL MQTT_PROP_TYPE_INT32 (- 1)
     = Step MOSQ_ERR_INVAL []
   \<and> property_from_number plain_world [] MQTT_PROP_SUBSCRIPTION_IDENTIFIER MQTT_PROP_TYPE_VARINT
       268435456
     = Step MOSQ_ERR_INVAL []"
proof -
  have a: "property_from_number plain_world [] MQTT_PROP_PAYLOAD_FORMAT_INDICATOR
             MQTT_PROP_TYPE_BYTE 300 = Step MOSQ_ERR_INVAL []"
    using numeric_value_range_check [of 300 MQTT_PROP_PAYLOAD_FORMAT_INDICATOR plain_world "[]"]
    by (simp add: towards_zero_300 INT_MIN_def INT_MAX_def)
  have b: "property_from_number plain_world [] MQTT_PROP_TOPIC_ALIAS
             MQTT_PROP_TYPE_INT16 70000 = Step MOSQ_ERR_INVAL []"
    using numeric_value_range_check [of 70000 MQTT_PROP_TOPIC_ALIAS plain_world "[]"]
    by (simp add: towards_zero_70000 INT_MIN_def INT_MAX_def)
  have c: "property_from_number plain_world [] MQTT_PROP_MESSAGE_EXPIRY_INTERVAL
             MQTT_PROP_TYPE_INT32 (- 1) = Step MOSQ_ERR_INVAL []"
    using numeric_value_range_check [of "- 1" MQTT_PROP_MESSAGE_EXPIRY_INTERVAL plain_world "[]"]
    by (simp add: towards_zero_minus_1 INT_MIN_def INT_MAX_def)
  have d: "property_from_number plain_world [] MQTT_PROP_SUBSCRIPTION_IDENTIFIER
             MQTT_PROP_TYPE_VARINT 268435456 = Step MOSQ_ERR_INVAL []"
    using numeric_value_range_check [of 268435456 MQTT_PROP_SUBSCRIPTION_IDENTIFIER plain_world "[]"]
    by (simp add: towards_zero_2_28 INT_MIN_def INT_MAX_def)
  from a b c d show ?thesis
    by blast
qed

text \<open>
  Against C5 as stated (a negative value is always rejected): the number -0.5 is
  converted to the \<^verbatim>\<open>int\<close> 0 and is encoded as the byte 0.
\<close>

theorem negative_fraction_is_encoded:
  "create_property_list_from_lua_stack plain_world
     [(LString ''payload-format-indicator'', LNumber (- 1 / 2))] [] CMD_PUBLISH
    = Rc MOSQ_ERR_SUCCESS [(property_calloc MQTT_PROP_PAYLOAD_FORMAT_INDICATOR)\<lparr>value_i8 := 0\<rparr>]"
  by code_simp

subsection \<open>Encoding: binary values\<close>

lemma strlen_up_to_zero_byte:
  "CHR 0x00 \<notin> set pre \<Longrightarrow> strlen (pre @ CHR 0x00 # post) = length pre"
  by (induction pre) (auto simp: strlen_def)

text \<open>
  \<^bold>\<open>C10\<close>. A binary value with a byte 0 in it is stored up to the first byte 0 only,
  and the check against the 16-bit length is made on the length of that prefix: what
  follows the byte 0, however long, has no effect. The property is added if the
  allocation succeeds.
\<close>

theorem binary_value_cut_at_first_zero_byte:
  assumes "property_type ident = MQTT_PROP_TYPE_BINARY" and "CHR 0x00 \<notin> set pre"
  shows "property_from_string w pl ident MQTT_PROP_TYPE_BINARY (pre @ CHR 0x00 # post) =
           (if 65535 < length pre then Step MOSQ_ERR_INVAL pl
            else if alloc_ok w pl ((property_calloc ident)\<lparr>value_bin := pre\<rparr>)
              then Step MOSQ_ERR_SUCCESS (pl @ [(property_calloc ident)\<lparr>value_bin := pre\<rparr>])
            else Step MOSQ_ERR_NOMEM pl)"
proof -
  have len: "strlen (pre @ CHR 0x00 # post) = length pre"
    using assms(2) by (rule strlen_up_to_zero_byte)
  show ?thesis
  proof (cases "65535 < length pre")
    case True
    then show ?thesis
      by (simp add: property_from_string_def len UINT16_MAX_def)
  next
    case False
    then have "unat (word_of_nat (length pre) :: 16 word) = length pre"
      by (simp add: unat_of_nat)
    with False assms(1) show ?thesis
      by (simp add: property_from_string_def len UINT16_MAX_def
          mosquitto_property_add_binary_def property__add_def)
  qed
qed

text \<open>The theorem for C10 at the three bytes \<^verbatim>\<open>a\<close>, 0, \<^verbatim>\<open>b\<close>.\<close>

theorem binary_value_cut_witness:
  "property_type MQTT_PROP_CORRELATION_DATA = MQTT_PROP_TYPE_BINARY
   \<and> CHR 0x00 \<notin> set ''a''
   \<and> property_from_string plain_world [] MQTT_PROP_CORRELATION_DATA MQTT_PROP_TYPE_BINARY
        [CHR ''a'', CHR 0x00, CHR ''b'']
      = Step MOSQ_ERR_SUCCESS [(property_calloc MQTT_PROP_CORRELATION_DATA)\<lparr>value_bin := ''a''\<rparr>]"
  using binary_value_cut_at_first_zero_byte
          [of MQTT_PROP_CORRELATION_DATA "''a''" plain_world "[]" "''b''"]
  by (simp add: plain_world_def)

subsection \<open>Encoding: the check against the command\<close>

lemma check_all_rejects_forbidden_property:
  "p \<in> set ps \<Longrightarrow>
   mosquitto_property_check_command command (prop_identifier p) \<noteq> MOSQ_ERR_SUCCESS \<Longrightarrow>
   mosquitto_property_check_all command ps \<noteq> MOSQ_ERR_SUCCESS"
  by (induction ps) (auto simp: mosq_err_defs)

text \<open>
  An entry that passes is encoded: the loop goes on to the next entry with the
  properties of this one appended to the list. An entry that is rejected ends the loop
  with a result code other than \<^verbatim>\<open>MOSQ_ERR_SUCCESS\<close>, by \<^verbatim>\<open>break\<close> or by \<^verbatim>\<open>return\<close>,
  and the list as it was.
\<close>

lemma property_from_table_accepts:
  assumes alloc: "\<And>pl p. alloc_ok w pl p"
    and ty: "property_type ident = MQTT_PROP_TYPE_STRING_PAIR"
  shows "pair_properties w ident t = Some ps \<Longrightarrow>
         property_from_table w ident t rc pl =
           Step (if t = [] then rc else MOSQ_ERR_SUCCESS) (pl @ ps)"
proof (induction t arbitrary: rc pl ps)
  case Nil
  then show ?case by simp
next
  case (Cons kx t)
  obtain k x where kx: "kx = (k, x)" by (cases kx)
  from Cons.prems obtain ks xs qs where k: "k = LString ks" and x: "x = LString xs"
    and valid: "utf8_valid w (cstring ks)" "utf8_valid w (cstring xs)"
    and qs: "pair_properties w ident t = Some qs"
    and ps: "ps = (property_calloc ident)\<lparr>value_s := cstring xs, name_v := cstring ks\<rparr> # qs"
    by (auto simp: kx split: lua_value.splits if_splits)
  have add: "mosquitto_property_add_string_pair w pl ident (Some ks) (lua_tolstring w x)
             = (MOSQ_ERR_SUCCESS,
                pl @ [(property_calloc ident)\<lparr>value_s := cstring xs, name_v := cstring ks\<rparr>])"
    by (simp add: mosquitto_property_add_string_pair_def ty valid property__add_def alloc
        lua_tolstring_def x)
  show ?case
    using Cons.IH [OF qs]
    by (simp add: kx k add ps)
qed

lemma uint_word_of_int_32: "0 \<le> t \<Longrightarrow> t \<le> 2147483647 \<Longrightarrow> uint (word_of_int t :: 32 word) = t"
  by (simp add: uint_word_of_int)

lemma cstring_length: "strlen s \<le> 65535 \<Longrightarrow> take (unat (word_of_nat (strlen s) :: 16 word)) s = cstring s"
  by (simp add: cstring_def unat_of_nat)

lemma accepted_entry_step:
  assumes alloc: "\<And>pl p. alloc_ok w pl p"
    and acc: "entry_properties w (k, v) = Some ps"
  shows "property_loop w ((k, v) # rest) rc pl = property_loop w rest MOSQ_ERR_SUCCESS (pl @ ps)"
proof -
  from acc obtain ident type where
    info: "mosquitto_string_to_property_info (lua_tolstring w k) = Some (ident, type)"
    by (auto split: option.splits)
  have ty: "property_type ident = type"
    using info
    by (auto simp: mosquitto_string_to_property_info_def split: option.splits dest!: map_of_SomeD)
  show ?thesis
  proof (cases v)
    case (LNumber d)
    with acc info obtain p where fits: "INT_MIN \<le> towards_zero d" "towards_zero d \<le> INT_MAX"
      and p: "number_property ident type (towards_zero d) = Some p" and ps: "ps = [p]"
      by (auto split: if_splits)
    have v: "double_to_int w d = towards_zero d"
      using fits by (rule double_to_int_in_range)
    show ?thesis
      using p fits(2)
      by (cases type)
         (auto simp: info LNumber ps property_from_number_def v Let_def number_property_def
            UINT8_MAX_def UINT16_MAX_def uint32_never_above_max
            mosquitto_property_add_byte_def mosquitto_property_add_int16_def
            mosquitto_property_add_int32_def mosquitto_property_add_varint_def
            property__add_def alloc ty uint_word_of_int_32 INT_MAX_def
            split: if_splits)
  next
    case (LString s)
    with acc info obtain p where p: "string_property w ident type s = Some p" and ps: "ps = [p]"
      by auto
    show ?thesis
      using p
      by (cases type)
         (auto simp: info LString ps property_from_string_def Let_def string_property_def
            UINT16_MAX_def mosquitto_property_add_binary_def mosquitto_property_add_string_def
            property__add_def alloc ty cstring_length
            split: if_splits)
  next
    case (LTable t)
    with acc info have pair: "type = MQTT_PROP_TYPE_STRING_PAIR"
      and ps: "pair_properties w ident t = Some ps"
      by (auto split: if_splits)
    have "property_from_table w ident t MOSQ_ERR_SUCCESS pl = Step MOSQ_ERR_SUCCESS (pl @ ps)"
      using property_from_table_accepts [OF alloc _ ps, of MOSQ_ERR_SUCCESS pl] ty pair
      by simp
    then show ?thesis
      by (simp add: info LTable)
  qed (use acc info in \<open>simp_all\<close>)
qed

lemma rejected_entry_stops:
  assumes "entry_rejected w (k, v)"
  shows "\<exists>rc'. rc' \<noteq> MOSQ_ERR_SUCCESS
           \<and> (property_loop w ((k, v) # rest) rc pl = Left rc' pl
                \<or> property_loop w ((k, v) # rest) rc pl = Returned rc' pl)"
proof (cases "mosquitto_string_to_property_info (lua_tolstring w k)")
  case None
  then show ?thesis
    by (simp add: mosq_err_defs)
next
  case (Some it)
  obtain ident type where it: "it = (ident, type)" by (cases it)
  have ty: "property_type ident = type"
    using Some
    by (auto simp: it mosquitto_string_to_property_info_def split: option.splits dest!: map_of_SomeD)
  show ?thesis
  proof (cases v)
    case (LNumber d)
    with assms Some have fits: "INT_MIN \<le> towards_zero d" "towards_zero d \<le> INT_MAX"
      and none: "number_property ident type (towards_zero d) = None"
      by (simp_all add: it)
    have v: "double_to_int w d = towards_zero d"
      using fits by (rule double_to_int_in_range)
    show ?thesis
      using none fits(2)
      by (cases type)
         (auto simp: Some it LNumber property_from_number_def v Let_def number_property_def
            UINT8_MAX_def UINT16_MAX_def uint32_never_above_max
            mosquitto_property_add_varint_def uint_word_of_int_32 INT_MAX_def mosq_err_defs
            split: if_splits)
  next
    case (LString s)
    with assms Some have none: "string_property w ident type s = None"
      by (simp add: it)
    show ?thesis
      using none
      by (cases type)
         (auto simp: Some it LString property_from_string_def Let_def string_property_def
            UINT16_MAX_def mosquitto_property_add_string_def mosq_err_defs
            split: if_splits)
  next
    case (LTable t)
    with assms Some show ?thesis
      by (simp add: it)
  qed (simp_all add: Some it mosq_err_defs)
qed

lemma accepted_prefix_loop:
  assumes alloc: "\<And>pl p. alloc_ok w pl p"
  shows "those (map (entry_properties w) pre) = Some pss \<Longrightarrow>
         property_loop w (pre @ rest) rc pl =
           property_loop w rest (if pre = [] then rc else MOSQ_ERR_SUCCESS) (pl @ concat pss)"
proof (induction pre arbitrary: rc pl pss)
  case Nil
  then show ?case by simp
next
  case (Cons e pre)
  obtain k v where e: "e = (k, v)" by (cases e)
  from Cons.prems obtain ps qss where ps: "entry_properties w (k, v) = Some ps"
    and qss: "those (map (entry_properties w) pre) = Some qss" and pss: "pss = ps # qss"
    by (auto simp: e split: option.splits)
  show ?case
    unfolding e append_Cons accepted_entry_step [OF alloc ps] Cons.IH [OF qss] pss
    by simp
qed

lemma accepted_table_encoded:
  assumes alloc: "\<And>pl p. alloc_ok w pl p"
    and ne: "tbl \<noteq> []"
    and acc: "those (map (entry_properties w) tbl) = Some pss"
  shows "create_property_list_from_lua_stack w tbl [] command =
           (if mosquitto_property_check_all command (concat pss) = MOSQ_ERR_SUCCESS
            then Rc MOSQ_ERR_SUCCESS (concat pss) else Rc MOSQ_ERR_INVAL [])"
  using accepted_prefix_loop [OF alloc acc, of "[]" "uninitialised_int w" "[]"] ne
  by (simp add: create_property_list_from_lua_stack_def)

text \<open>
  \<^bold>\<open>C8\<close>, as amended. Where no allocation fails, the check against the command
  comes after the loop over the entries and only if none of them was rejected.

    \<^item> If every entry of a table that is not empty passes name resolution and the
      validation of its value, the list handed to \<^verbatim>\<open>mosquitto_property_check_all\<close>
      holds the properties of all the entries, in the order of the entries. The result
      is that list if the check passes, and \<^verbatim>\<open>MOSQ_ERR_INVAL\<close> with the list released
      if it does not;
    \<^item> in particular the result is \<^verbatim>\<open>MOSQ_ERR_INVAL\<close> if one of these properties is not
      allowed for the command;
    \<^item> if the entries before some entry pass and that entry is rejected (an unknown
      name, a number or a string that does not pass, a value of another Lua type), the
      result is a failure that is the same for every command, whatever the entries
      after it: the check against the command is not reached.

  The result code for a property that is not allowed is \<^verbatim>\<open>MOSQ_ERR_INVAL\<close>, the code
  that an unknown name and a value out of range give as well. Nothing is stated for an
  empty table, nor for an entry whose value is a table that does not pass.
\<close>

theorem legality_checked_after_every_entry:
  assumes alloc: "\<And>pl p. alloc_ok w pl p"
  shows "(tbl \<noteq> [] \<and> those (map (entry_properties w) tbl) = Some pss \<longrightarrow>
            create_property_list_from_lua_stack w tbl [] command =
              (if mosquitto_property_check_all command (concat pss) = MOSQ_ERR_SUCCESS
               then Rc MOSQ_ERR_SUCCESS (concat pss) else Rc MOSQ_ERR_INVAL []))
       \<and> (tbl \<noteq> [] \<and> those (map (entry_properties w) tbl) = Some pss \<and> p \<in> set (concat pss)
            \<and> mosquitto_property_check_command command (prop_identifier p) \<noteq> MOSQ_ERR_SUCCESS \<longrightarrow>
            create_property_list_from_lua_stack w tbl [] command = Rc MOSQ_ERR_INVAL [])
       \<and> (those (map (entry_properties w) pre) = Some qss \<and> entry_rejected w e \<longrightarrow>
            (\<exists>rc ps. rc \<noteq> MOSQ_ERR_SUCCESS
               \<and> (\<forall>command'. create_property_list_from_lua_stack w (pre @ e # post) []
                                command' = Rc rc ps)))"
proof (intro conjI impI)
  assume "tbl \<noteq> [] \<and> those (map (entry_properties w) tbl) = Some pss"
  then show "create_property_list_from_lua_stack w tbl [] command =
              (if mosquitto_property_check_all command (concat pss) = MOSQ_ERR_SUCCESS
               then Rc MOSQ_ERR_SUCCESS (concat pss) else Rc MOSQ_ERR_INVAL [])"
    using accepted_table_encoded [OF alloc] by blast
next
  assume a: "tbl \<noteq> [] \<and> those (map (entry_properties w) tbl) = Some pss \<and> p \<in> set (concat pss)
            \<and> mosquitto_property_check_command command (prop_identifier p) \<noteq> MOSQ_ERR_SUCCESS"
  then have "mosquitto_property_check_all command (concat pss) \<noteq> MOSQ_ERR_SUCCESS"
    using check_all_rejects_forbidden_property by blast
  with a show "create_property_list_from_lua_stack w tbl [] command = Rc MOSQ_ERR_INVAL []"
    using accepted_table_encoded [OF alloc, of tbl pss command] by simp
next
  assume a: "those (map (entry_properties w) pre) = Some qss \<and> entry_rejected w e"
  obtain k v where e: "e = (k, v)" by (cases e)
  let ?rc = "if pre = [] then uninitialised_int w else MOSQ_ERR_SUCCESS"
  have loop: "property_loop w (pre @ e # post) (uninitialised_int w) [] =
              property_loop w ((k, v) # post) ?rc (concat qss)"
    using accepted_prefix_loop [OF alloc, of pre qss "e # post" "uninitialised_int w" "[]"] a
    by (simp add: e)
  from a rejected_entry_stops [of w k v post ?rc "concat qss"]
  obtain rc' where rc': "rc' \<noteq> MOSQ_ERR_SUCCESS"
    and stop: "property_loop w ((k, v) # post) ?rc (concat qss) = Left rc' (concat qss)
               \<or> property_loop w ((k, v) # post) ?rc (concat qss) = Returned rc' (concat qss)"
    unfolding e by blast
  from stop show "\<exists>rc ps. rc \<noteq> MOSQ_ERR_SUCCESS
               \<and> (\<forall>command'. create_property_list_from_lua_stack w (pre @ e # post) []
                                command' = Rc rc ps)"
  proof
    assume "property_loop w ((k, v) # post) ?rc (concat qss) = Left rc' (concat qss)"
    with loop rc' have "\<forall>command'. create_property_list_from_lua_stack w (pre @ e # post) []
                                command' = Rc rc' []"
      by (simp add: create_property_list_from_lua_stack_def)
    with rc' show ?thesis by blast
  next
    assume "property_loop w ((k, v) # post) ?rc (concat qss) = Returned rc' (concat qss)"
    with loop rc' have "\<forall>command'. create_property_list_from_lua_stack w (pre @ e # post) []
                                command' = Rc rc' (concat qss)"
      by (simp add: create_property_list_from_lua_stack_def)
    with rc' show ?thesis by blast
  qed
qed

lemma plain_world_allocates: "alloc_ok plain_world pl p"
  by (simp add: plain_world_def)

lemma scenario_entries:
  "those (map (entry_properties plain_world)
            [(LString ''content-type'', LString ''text/json''),
             (LString ''message-expiry-interval'', LNumber 255)])
   = Some [[(property_calloc MQTT_PROP_CONTENT_TYPE)\<lparr>value_s := ''text/json''\<rparr>],
           [(property_calloc MQTT_PROP_MESSAGE_EXPIRY_INTERVAL)\<lparr>value_i32 := 255\<rparr>]]"
  by code_simp

lemma topic_alias_entry:
  "those (map (entry_properties plain_world) [(LString ''topic-alias'', LNumber 5)])
   = Some [[(property_calloc MQTT_PROP_TOPIC_ALIAS)\<lparr>value_i16 := 5\<rparr>]]"
  by code_simp

lemma bogus_name_rejected: "entry_rejected plain_world (LString ''bogus-name'', LNumber 1)"
  by code_simp

lemma bogus_name_for_publish:
  "create_property_list_from_lua_stack plain_world
     ([(LString ''topic-alias'', LNumber 5)] @ (LString ''bogus-name'', LNumber 1)
        # [(LString ''content-type'', LString ''x'')]) [] CMD_PUBLISH
   = Rc MOSQ_ERR_INVAL []"
  by code_simp

text \<open>
  The theorem for C8 at the two properties of the scenario of the specification,
  which a publish may carry and a connect may not, and at a table whose second entry
  has an unknown name.
\<close>

theorem legality_checked_after_every_entry_witness:
  "create_property_list_from_lua_stack plain_world
     [(LString ''content-type'', LString ''text/json''),
      (LString ''message-expiry-interval'', LNumber 255)] [] CMD_PUBLISH
    = Rc MOSQ_ERR_SUCCESS
        [(property_calloc MQTT_PROP_CONTENT_TYPE)\<lparr>value_s := ''text/json''\<rparr>,
         (property_calloc MQTT_PROP_MESSAGE_EXPIRY_INTERVAL)\<lparr>value_i32 := 255\<rparr>]
   \<and> create_property_list_from_lua_stack plain_world
     [(LString ''content-type'', LString ''text/json''),
      (LString ''message-expiry-interval'', LNumber 255)] [] CMD_CONNECT
    = Rc MOSQ_ERR_INVAL []
   \<and> (\<forall>command. create_property_list_from_lua_stack plain_world
        [(LString ''topic-alias'', LNumber 5), (LString ''bogus-name'', LNumber 1),
         (LString ''content-type'', LString ''x'')] [] command
       = Rc MOSQ_ERR_INVAL [])"
proof -
  let ?t = "[(LString ''content-type'', LString ''text/json''),
             (LString ''message-expiry-interval'', LNumber 255)]"
  let ?c = "(property_calloc MQTT_PROP_CONTENT_TYPE)\<lparr>value_s := ''text/json''\<rparr>"
  let ?m = "(property_calloc MQTT_PROP_MESSAGE_EXPIRY_INTERVAL)\<lparr>value_i32 := 255\<rparr>"
  note claim = legality_checked_after_every_entry [OF plain_world_allocates]
  have ne: "?t \<noteq> []"
    by simp
  have legal: "mosquitto_property_check_all CMD_PUBLISH (concat [[?c], [?m]]) = MOSQ_ERR_SUCCESS"
    by code_simp
  have illegal:
    "mosquitto_property_check_command CMD_CONNECT (prop_identifier ?c) \<noteq> MOSQ_ERR_SUCCESS"
    by code_simp
  have mem: "?c \<in> set (concat [[?c], [?m]])"
    by simp
  have r1: "create_property_list_from_lua_stack plain_world ?t [] CMD_PUBLISH
            = Rc MOSQ_ERR_SUCCESS [?c, ?m]"
    using claim [where tbl = ?t and pss = "[[?c], [?m]]" and command = CMD_PUBLISH,
               THEN conjunct1, THEN mp,
               OF conjI [OF ne scenario_entries]]
    unfolding legal by simp
  have r2: "create_property_list_from_lua_stack plain_world ?t [] CMD_CONNECT
            = Rc MOSQ_ERR_INVAL []"
    by (rule claim [where tbl = ?t and pss = "[[?c], [?m]]" and command = CMD_CONNECT
                    and p = ?c, THEN conjunct2, THEN conjunct1, THEN mp,
                  OF conjI [OF ne conjI [OF scenario_entries conjI [OF mem illegal]]]])
  from claim [where post = "[(LString ''content-type'', LString ''x'')]",
              THEN conjunct2, THEN conjunct2, THEN mp,
              OF conjI [OF topic_alias_entry bogus_name_rejected]]
  obtain rc ps where all: "\<forall>command. create_property_list_from_lua_stack plain_world
        ([(LString ''topic-alias'', LNumber 5)] @ (LString ''bogus-name'', LNumber 1)
           # [(LString ''content-type'', LString ''x'')]) [] command = Rc rc ps"
    by blast
  from all [rule_format, of CMD_PUBLISH] have "Rc rc ps = Rc MOSQ_ERR_INVAL []"
    unfolding bogus_name_for_publish by simp
  with all have r3: "\<forall>command. create_property_list_from_lua_stack plain_world
        [(LString ''topic-alias'', LNumber 5), (LString ''bogus-name'', LNumber 1),
         (LString ''content-type'', LString ''x'')] [] command = Rc MOSQ_ERR_INVAL []"
    by simp
  from r1 r2 r3 show ?thesis
    by blast
qed

text \<open>
  Against C8 as stated (a property that is not allowed for the command makes the
  encoding fail with a failure of its own kind, after every entry has passed):
  \<^verbatim>\<open>mosquitto_property_check_all\<close> answers \<^verbatim>\<open>MOSQ_ERR_PROTOCOL\<close> for a property that the
  command may not carry, here \<^verbatim>\<open>session-expiry-interval\<close> for a publish, and
  \<^verbatim>\<open>create_property_list_from_lua_stack\<close> replaces that code by \<^verbatim>\<open>MOSQ_ERR_INVAL\<close>
  (line 1858), so the result is the one an unknown name and a negative number give.
  Besides, two kinds of entry are not rejected although their value does not pass, so
  that the list is checked and returned all the same: a table under a property that is
  no \<^verbatim>\<open>user-property\<close>, if the table is empty, and a table of pairs of which
  libmosquitto refuses one, if it accepts the last (each pass of the inner loop
  overwrites \<^verbatim>\<open>rc\<close>). The amended statement says nothing about these two.
\<close>

theorem forbidden_property_fails_like_unknown_name:
  "mosquitto_property_check_all CMD_PUBLISH
     [(property_calloc MQTT_PROP_SESSION_EXPIRY_INTERVAL)\<lparr>value_i32 := 5\<rparr>] = MOSQ_ERR_PROTOCOL
   \<and> create_property_list_from_lua_stack plain_world
       [(LString ''session-expiry-interval'', LNumber 5)] [] CMD_PUBLISH = Rc MOSQ_ERR_INVAL []
   \<and> create_property_list_from_lua_stack plain_world
       [(LString ''bogus-name'', LNumber 1)] [] CMD_PUBLISH = Rc MOSQ_ERR_INVAL []
   \<and> create_property_list_from_lua_stack plain_world
       [(LString ''message-expiry-interval'', LNumber (- 1))] [] CMD_PUBLISH = Rc MOSQ_ERR_INVAL []
   \<and> create_property_list_from_lua_stack plain_world
       [(LString ''content-type'', LTable [])] [] CMD_CONNECT = Rc MOSQ_ERR_SUCCESS []
   \<and> create_property_list_from_lua_stack strict_world
       [(LString ''user-property'',
         LTable [(LString ''a'', LString [CHR 0xFF]), (LString ''b'', LString ''2'')])]
       [] CMD_PUBLISH
     = Rc MOSQ_ERR_SUCCESS
         [(property_calloc MQTT_PROP_USER_PROPERTY)\<lparr>value_s := ''2'', name_v := ''b''\<rparr>]"
  by code_simp

subsection \<open>Decoding\<close>

lemma set_all_simps [simp]:
  "set_all t [] = t"
  "set_all t ((k, v) # kvs) = set_all (AList.update k v t) kvs"
  by (simp_all add: set_all_def)

lemma cstring_identifier_name:
  "cstring (mosquitto_property_identifier_to_string i) = mosquitto_property_identifier_to_string i"
  by (cases i) (simp_all add: cstring_def strlen_def)

lemma decode_loop_plain_step:
  assumes "prop_identifier p \<noteq> MQTT_PROP_USER_PROPERTY" and "read_alloc_ok w p"
  shows "decode_loop w (p # ps) main user =
           decode_loop w ps
             (AList.update (LString (mosquitto_property_identifier_to_string (prop_identifier p)))
                (decoded_value p) main) user"
  using assms
  by (cases "prop_identifier p")
     (simp_all add: decoded_value_def lua_setfield_def cstring_def strlen_def
        lua_pushlstring_def Let_def)

lemma decode_loop_user_step:
  assumes "prop_identifier p = MQTT_PROP_USER_PROPERTY" and "read_alloc_ok w p"
  shows "decode_loop w (p # ps) main user =
           decode_loop w ps main
             (Some (AList.update (LString (cstring (name_v p))) (lua_pushstring (value_s p))
                      (case user of None \<Rightarrow> [] | Some u \<Rightarrow> u)))"
  using assms by (simp add: lua_setfield_def Let_def)

lemma decode_loop_result:
  assumes "\<forall>p\<in>set ps. read_alloc_ok w p"
  shows "decode_loop w ps main user =
           (MOSQ_ERR_SUCCESS,
            [LTable
               (if user = None \<and> user_entries ps = [] then set_all main (plain_entries ps)
                else AList.update (LString ''user-property'')
                       (LTable (set_all (case user of None \<Rightarrow> [] | Some u \<Rightarrow> u) (user_entries ps)))
                       (set_all main (plain_entries ps)))])"
  using assms
proof (induction ps arbitrary: main user)
  case Nil
  then show ?case
    by (simp add: plain_entries_def user_entries_def lua_setfield_def cstring_def strlen_def
        split: option.splits)
next
  case (Cons p ps)
  then have ok: "read_alloc_ok w p" and rest: "\<forall>q\<in>set ps. read_alloc_ok w q"
    by simp_all
  note IH = Cons.IH [OF rest]
  show ?case
  proof (cases "prop_identifier p = MQTT_PROP_USER_PROPERTY")
    case True
    then show ?thesis
      by (simp only: decode_loop_user_step [OF True ok] IH)
         (simp add: plain_entries_def user_entries_def)
  next
    case False
    then show ?thesis
      by (simp only: decode_loop_plain_step [OF False ok] IH)
         (simp add: plain_entries_def user_entries_def)
  qed
qed

lemma map_of_set_all: "map_of (set_all t kvs) = map_of t ++ map_of (rev kvs)"
proof (induction kvs arbitrary: t)
  case Nil
  then show ?case by simp
next
  case (Cons kv kvs)
  obtain k v where kv: "kv = (k, v)" by (cases kv)
  show ?case
    by (rule ext) (simp add: kv Cons.IH update_conv' map_add_def split: option.splits)
qed

lemma plain_entries_no_user_key:
  "map_of (rev (plain_entries ps)) (LString ''user-property'') = None"
proof -
  have "mosquitto_property_identifier_to_string i \<noteq> ''user-property''"
    if "i \<noteq> MQTT_PROP_USER_PROPERTY" for i
    using that by (cases i) simp_all
  then have "LString ''user-property'' \<notin> fst ` set (plain_entries ps)"
    by (force simp: plain_entries_def)
  then show ?thesis
    by (simp add: map_of_eq_None_iff)
qed

text \<open>
  \<^bold>\<open>C7\<close>, as amended. Where every read succeeds, decoding yields one table. All user
  properties go into one nested table, which is stored under \<^verbatim>\<open>user-property\<close> once
  the whole list has been read, and which is absent if the list has no user property.
  Every other property is stored under its name, a later one replacing an earlier one
  of the same name. In the nested table, too, a later pair replaces an earlier pair
  with the same key: the nested table holds, for each key, the value of its last
  occurrence. If no key occurs twice, it holds exactly the pairs of the list, whatever
  their order.
\<close>

theorem decode_user_properties_last_value_wins:
  assumes "\<forall>p\<in>set ps. read_alloc_ok w p"
  shows "\<exists>T U. create_lua_stack_from_property_list w ps = (MOSQ_ERR_SUCCESS, [LTable T])
           \<and> map_of T (LString ''user-property'')
               = (if user_entries ps = [] then None else Some (LTable U))
           \<and> (\<forall>k. k \<noteq> LString ''user-property'' \<longrightarrow>
                  map_of T k = map_of (rev (plain_entries ps)) k)
           \<and> map_of U = map_of (rev (user_entries ps))
           \<and> (distinct (map fst (user_entries ps)) \<longrightarrow>
                (\<forall>k v. map_of U k = Some v \<longleftrightarrow> (k, v) \<in> set (user_entries ps)))"
proof -
  let ?U = "set_all [] (user_entries ps)"
  let ?T = "if user_entries ps = [] then set_all [] (plain_entries ps)
            else AList.update (LString ''user-property'') (LTable ?U)
                   (set_all [] (plain_entries ps))"
  have res: "create_lua_stack_from_property_list w ps = (MOSQ_ERR_SUCCESS, [LTable ?T])"
    using decode_loop_result [OF assms, of "[]" None]
    by (simp add: create_lua_stack_from_property_list_def)
  have u: "map_of ?U = map_of (rev (user_entries ps))"
    by (simp add: map_of_set_all)
  have t1: "map_of ?T (LString ''user-property'')
               = (if user_entries ps = [] then None else Some (LTable ?U))"
    by (simp add: map_of_set_all update_conv' plain_entries_no_user_key)
  have t2: "\<forall>k. k \<noteq> LString ''user-property'' \<longrightarrow>
                  map_of ?T k = map_of (rev (plain_entries ps)) k"
    by (simp add: map_of_set_all update_conv')
  have d: "distinct (map fst (user_entries ps)) \<longrightarrow>
                (\<forall>k v. map_of ?U k = Some v \<longleftrightarrow> (k, v) \<in> set (user_entries ps))"
    by (simp add: u rev_map [symmetric])
  from res u t1 t2 d show ?thesis
    by blast
qed

text \<open>The theorem for C7 at a list of two user properties with the keys \<^verbatim>\<open>a\<close> and \<^verbatim>\<open>b\<close>.\<close>

theorem decode_user_properties_witness:
  "read_alloc_ok plain_world ((property_calloc MQTT_PROP_USER_PROPERTY)\<lparr>value_s := ''1'', name_v := ''a''\<rparr>)
   \<and> read_alloc_ok plain_world ((property_calloc MQTT_PROP_USER_PROPERTY)\<lparr>value_s := ''2'', name_v := ''b''\<rparr>)
   \<and> (\<exists>T U. create_lua_stack_from_property_list plain_world
              [(property_calloc MQTT_PROP_USER_PROPERTY)\<lparr>value_s := ''1'', name_v := ''a''\<rparr>,
               (property_calloc MQTT_PROP_USER_PROPERTY)\<lparr>value_s := ''2'', name_v := ''b''\<rparr>]
            = (MOSQ_ERR_SUCCESS, [LTable T])
          \<and> map_of T (LString ''user-property'') = Some (LTable U)
          \<and> map_of U (LString ''a'') = Some (LString ''1'')
          \<and> map_of U (LString ''b'') = Some (LString ''2''))"
proof -
  let ?p1 = "(property_calloc MQTT_PROP_USER_PROPERTY)\<lparr>value_s := ''1'', name_v := ''a''\<rparr>"
  let ?p2 = "(property_calloc MQTT_PROP_USER_PROPERTY)\<lparr>value_s := ''2'', name_v := ''b''\<rparr>"
  have ok: "\<forall>p\<in>set [?p1, ?p2]. read_alloc_ok plain_world p"
    by (simp add: plain_world_def)
  have ue: "user_entries [?p1, ?p2] = [(LString ''a'', LString ''1''), (LString ''b'', LString ''2'')]"
    by code_simp
  from decode_user_properties_last_value_wins [OF ok]
  obtain T U where
    res: "create_lua_stack_from_property_list plain_world [?p1, ?p2] = (MOSQ_ERR_SUCCESS, [LTable T])"
    and up: "map_of T (LString ''user-property'')
               = (if user_entries [?p1, ?p2] = [] then None else Some (LTable U))"
    and d: "distinct (map fst (user_entries [?p1, ?p2])) \<longrightarrow>
                (\<forall>k v. map_of U k = Some v \<longleftrightarrow> (k, v) \<in> set (user_entries [?p1, ?p2]))"
    by blast
  from up have up': "map_of T (LString ''user-property'') = Some (LTable U)"
    by (simp add: ue)
  from d have "map_of U (LString ''a'') = Some (LString ''1'')"
    and "map_of U (LString ''b'') = Some (LString ''2'')"
    by (simp_all add: ue)
  with res up' ok show ?thesis
    by auto
qed

text \<open>
  Against C7 as stated (the nested table contains every pair, whatever the wire
  order): of two user properties with the same key only the later one is in the nested
  table, and which one that is depends on the order.
\<close>

theorem repeated_user_key_loses_pair:
  "create_lua_stack_from_property_list plain_world
     [(property_calloc MQTT_PROP_USER_PROPERTY)\<lparr>value_s := ''1'', name_v := ''a''\<rparr>,
      (property_calloc MQTT_PROP_USER_PROPERTY)\<lparr>value_s := ''2'', name_v := ''a''\<rparr>]
   = (MOSQ_ERR_SUCCESS,
      [LTable [(LString ''user-property'', LTable [(LString ''a'', LString ''2'')])]])
   \<and> create_lua_stack_from_property_list plain_world
     [(property_calloc MQTT_PROP_USER_PROPERTY)\<lparr>value_s := ''2'', name_v := ''a''\<rparr>,
      (property_calloc MQTT_PROP_USER_PROPERTY)\<lparr>value_s := ''1'', name_v := ''a''\<rparr>]
   = (MOSQ_ERR_SUCCESS,
      [LTable [(LString ''user-property'', LTable [(LString ''a'', LString ''1'')])]])"
  by code_simp

subsection \<open>Round trips\<close>

text \<open>
  The properties of the example in the README, encoded for a publish and decoded again,
  come back as they went in.
\<close>

lemma readme_properties_round_trip:
  "create_property_list_from_lua_stack plain_world
     [(LString ''content-type'', LString ''text/json''),
      (LString ''response-topic'', LString ''this/is/my/response/topic''),
      (LString ''payload-format-indicator'', LNumber 0),
      (LString ''message-expiry-interval'', LNumber 255),
      (LString ''user-property'',
       LTable [(LString ''a'', LString ''testA''), (LString ''b'', LString ''testB'')])]
     [] CMD_PUBLISH
   = Rc MOSQ_ERR_SUCCESS
       [(property_calloc MQTT_PROP_CONTENT_TYPE)\<lparr>value_s := ''text/json''\<rparr>,
        (property_calloc MQTT_PROP_RESPONSE_TOPIC)\<lparr>value_s := ''this/is/my/response/topic''\<rparr>,
        (property_calloc MQTT_PROP_PAYLOAD_FORMAT_INDICATOR)\<lparr>value_i8 := 0\<rparr>,
        (property_calloc MQTT_PROP_MESSAGE_EXPIRY_INTERVAL)\<lparr>value_i32 := 255\<rparr>,
        (property_calloc MQTT_PROP_USER_PROPERTY)\<lparr>value_s := ''testA'', name_v := ''a''\<rparr>,
        (property_calloc MQTT_PROP_USER_PROPERTY)\<lparr>value_s := ''testB'', name_v := ''b''\<rparr>]
   \<and> create_lua_stack_from_property_list plain_world
       [(property_calloc MQTT_PROP_CONTENT_TYPE)\<lparr>value_s := ''text/json''\<rparr>,
        (property_calloc MQTT_PROP_RESPONSE_TOPIC)\<lparr>value_s := ''this/is/my/response/topic''\<rparr>,
        (property_calloc MQTT_PROP_PAYLOAD_FORMAT_INDICATOR)\<lparr>value_i8 := 0\<rparr>,
        (property_calloc MQTT_PROP_MESSAGE_EXPIRY_INTERVAL)\<lparr>value_i32 := 255\<rparr>,
        (property_calloc MQTT_PROP_USER_PROPERTY)\<lparr>value_s := ''testA'', name_v := ''a''\<rparr>,
        (property_calloc MQTT_PROP_USER_PROPERTY)\<lparr>value_s := ''testB'', name_v := ''b''\<rparr>]
   = (MOSQ_ERR_SUCCESS,
      [LTable
         [(LString ''content-type'', LString ''text/json''),
          (LString ''response-topic'', LString ''this/is/my/response/topic''),
          (LString ''payload-format-indicator'', LNumber 0),
          (LString ''message-expiry-interval'', LNumber 255),
          (LString ''user-property'',
           LTable [(LString ''a'', LString ''testA''), (LString ''b'', LString ''testB'')])]])"
  by code_simp

lemma registry_finds_own_name:
  "mosquitto_string_to_property_info (Some (mosquitto_property_identifier_to_string i))
     = Some (i, property_type i)"
  by (cases i)
     (simp_all add: mosquitto_string_to_property_info_def all_property_ids_def cstring_def
        strlen_def tolower_def)

lemma uint_word_of_int_8: "0 \<le> t \<Longrightarrow> t \<le> 255 \<Longrightarrow> uint (word_of_int t :: 8 word) = t"
  by (simp add: uint_word_of_int)

lemma uint_word_of_int_16: "0 \<le> t \<Longrightarrow> t \<le> 65535 \<Longrightarrow> uint (word_of_int t :: 16 word) = t"
  by (simp add: uint_word_of_int)

lemma cstring_without_zero: "CHR 0x00 \<notin> set s \<Longrightarrow> cstring s = s"
  by (induction s) (auto simp: cstring_def strlen_def)

lemma strlen_without_zero: "CHR 0x00 \<notin> set s \<Longrightarrow> strlen s = length s"
  by (induction s) (auto simp: strlen_def)

lemma update_new_key: "k \<notin> fst ` set al \<Longrightarrow> AList.update k v al = al @ [(k, v)]"
  by (induction al) auto

lemma set_all_distinct:
  "distinct (map fst t) \<Longrightarrow> fst ` set acc \<inter> fst ` set t = {} \<Longrightarrow> set_all acc t = acc @ t"
proof (induction t arbitrary: acc)
  case Nil
  then show ?case by simp
next
  case (Cons kv t)
  obtain k v where kv: "kv = (k, v)" by (cases kv)
  from Cons.prems have new: "k \<notin> fst ` set acc" and d: "distinct (map fst t)"
    and k: "k \<notin> fst ` set t" and disj: "fst ` set acc \<inter> fst ` set t = {}"
    by (auto simp: kv)
  have "set_all (acc @ [(k, v)]) t = (acc @ [(k, v)]) @ t"
    using d k disj by (intro Cons.IH) auto
  then show ?case
    by (simp add: kv update_new_key [OF new])
qed

lemma string_pair_only_user_property:
  "property_type i = MQTT_PROP_TYPE_STRING_PAIR \<Longrightarrow> i = MQTT_PROP_USER_PROPERTY"
  by (cases i) simp_all

lemma decode_single_plain:
  assumes "prop_identifier p \<noteq> MQTT_PROP_USER_PROPERTY" and "read_alloc_ok w p"
  shows "create_lua_stack_from_property_list w [p] =
           (MOSQ_ERR_SUCCESS,
            [LTable [(LString (mosquitto_property_identifier_to_string (prop_identifier p)),
                      decoded_value p)]])"
  by (simp only: create_lua_stack_from_property_list_def decode_loop_plain_step [OF assms])
     simp

lemma check_all_single:
  "mosquitto_property_check_all command [p] =
     (if property_type (prop_identifier p) = MQTT_PROP_TYPE_BYTE \<and> uint (value_i8 p) > 1
        then MOSQ_ERR_PROTOCOL
      else if prop_identifier p = MQTT_PROP_MAXIMUM_PACKET_SIZE \<and> value_i32 p = 0
        then MOSQ_ERR_PROTOCOL
      else if prop_identifier p \<in> set [MQTT_PROP_RECEIVE_MAXIMUM, MQTT_PROP_TOPIC_ALIAS]
                \<and> value_i16 p = 0
        then MOSQ_ERR_PROTOCOL
      else mosquitto_property_check_command command (prop_identifier p))"
  by simp

lemma word_of_int_16_nonzero: "1 \<le> t \<Longrightarrow> t \<le> 65535 \<Longrightarrow> (word_of_int t :: 16 word) \<noteq> 0"
  using uint_word_of_int_16 [of t] by auto

lemma word_of_int_32_nonzero:
  "1 \<le> t \<Longrightarrow> t \<le> 2147483647 \<Longrightarrow> (word_of_int t :: 32 word) \<noteq> 0"
  using uint_word_of_int_32 [of t] by auto

lemma single_property_round_trip:
  assumes alloc: "\<And>pl p. alloc_ok w pl p"
    and reads: "read_alloc_ok w p"
    and acc: "entry_properties w (LString (mosquitto_property_identifier_to_string ident), v)
              = Some [p]"
    and id: "prop_identifier p = ident"
    and plain: "ident \<noteq> MQTT_PROP_USER_PROPERTY"
    and chk: "mosquitto_property_check_all command [p] = MOSQ_ERR_SUCCESS"
    and dv: "decoded_value p = v"
  shows "\<exists>pl. create_property_list_from_lua_stack w
                 [(LString (mosquitto_property_identifier_to_string ident), v)] [] command
               = Rc MOSQ_ERR_SUCCESS pl
              \<and> create_lua_stack_from_property_list w pl
                = (MOSQ_ERR_SUCCESS,
                   [LTable [(LString (mosquitto_property_identifier_to_string ident), v)]])"
proof -
  have "create_property_list_from_lua_stack w
          [(LString (mosquitto_property_identifier_to_string ident), v)] [] command
        = Rc MOSQ_ERR_SUCCESS [p]"
    using accepted_table_encoded [OF alloc, of _ "[[p]]" command] acc chk
    by simp
  moreover have "create_lua_stack_from_property_list w [p]
        = (MOSQ_ERR_SUCCESS,
           [LTable [(LString (mosquitto_property_identifier_to_string ident), v)]])"
    using decode_single_plain [of p w] id plain reads dv by simp
  ultimately show ?thesis
    by blast
qed

lemma whole_number_inD:
  assumes "whole_number_in lo hi v"
  obtains d where "v = LNumber d" "d = of_int (towards_zero d)" "lo \<le> towards_zero d"
    "towards_zero d \<le> hi"
  using assms by (cases v) (simp_all add: whole_number_in_def)

lemma number_entry:
  assumes "INT_MIN \<le> towards_zero d" "towards_zero d \<le> INT_MAX"
  shows "entry_properties w (LString (mosquitto_property_identifier_to_string ident), LNumber d)
         = map_option (\<lambda>p. [p]) (number_property ident (property_type ident) (towards_zero d))"
  using assms by (simp add: registry_finds_own_name lua_tolstring_def)

lemma string_entry:
  "entry_properties w (LString (mosquitto_property_identifier_to_string ident), LString s)
   = map_option (\<lambda>p. [p]) (string_property w ident (property_type ident) s)"
  by (simp add: registry_finds_own_name lua_tolstring_def)

lemma user_properties_pass_check:
  assumes "mosquitto_property_check_command command MQTT_PROP_USER_PROPERTY = MOSQ_ERR_SUCCESS"
  shows "\<forall>p\<in>set ps. prop_identifier p = MQTT_PROP_USER_PROPERTY \<Longrightarrow>
         mosquitto_property_check_all command ps = MOSQ_ERR_SUCCESS"
  using assms by (induction ps) simp_all

lemma valid_pairs_encoded:
  assumes "list_all (\<lambda>(k, x). pair_string w k \<and> pair_string w x) t"
  shows "\<exists>ps. pair_properties w MQTT_PROP_USER_PROPERTY t = Some ps
            \<and> user_entries ps = t \<and> plain_entries ps = []
            \<and> (\<forall>p\<in>set ps. prop_identifier p = MQTT_PROP_USER_PROPERTY)"
  using assms
proof (induction t)
  case Nil
  then show ?case
    by (simp add: user_entries_def plain_entries_def)
next
  case (Cons kx t)
  obtain k x where kx: "kx = (k, x)" by (cases kx)
  from Cons.prems obtain ks xs where k: "k = LString ks" and x: "x = LString xs"
    and kz: "CHR 0x00 \<notin> set ks" and xz: "CHR 0x00 \<notin> set xs"
    and kv: "utf8_valid w ks" and xv: "utf8_valid w xs"
    by (cases k; cases x) (simp_all add: kx pair_string_def)
  from Cons.prems have "list_all (\<lambda>(k, x). pair_string w k \<and> pair_string w x) t"
    by simp
  from Cons.IH [OF this] obtain ps where ps: "pair_properties w MQTT_PROP_USER_PROPERTY t = Some ps"
    "user_entries ps = t" "plain_entries ps = []"
    "\<forall>p\<in>set ps. prop_identifier p = MQTT_PROP_USER_PROPERTY"
    by blast
  show ?case
    using ps kz xz kv xv
    by (simp add: kx k x cstring_without_zero user_entries_def plain_entries_def
        property_calloc_def lua_pushstring_def)
qed

text \<open>
  \<^bold>\<open>C6\<close>, as amended. Take a property name as the registry spells it, a command
  that may carry the property, and a value that \<open>round_trip_value\<close> admits for the
  wire type of the property: 0 or 1 for a byte; a whole number up to 65535 for a 16-bit
  property, up to \<open>2^31 - 1\<close> for a 32-bit property, up to 268435455 for the
  variable-length property, and not 0 for \<^verbatim>\<open>receive-maximum\<close>, \<^verbatim>\<open>topic-alias\<close> and
  \<^verbatim>\<open>maximum-packet-size\<close>; a string of valid UTF-8 without a byte 0 for a string
  property; a string of at most 65535 bytes without a byte 0 for a binary property; for
  \<^verbatim>\<open>user-property\<close> a table of pairs of such strings that is not empty and has no key
  twice. Where no allocation fails, encoding the table with this one entry succeeds,
  and decoding the list it yields gives back the table with this one entry, the value
  as it went in.
\<close>

theorem one_entry_round_trip:
  assumes permits: "mosquitto_property_check_command command ident = MOSQ_ERR_SUCCESS"
    and val: "round_trip_value w ident v"
    and alloc: "\<And>pl p. alloc_ok w pl p"
    and reads: "\<And>p. read_alloc_ok w p"
  shows "\<exists>pl. create_property_list_from_lua_stack w
                 [(LString (mosquitto_property_identifier_to_string ident), v)] [] command
               = Rc MOSQ_ERR_SUCCESS pl
              \<and> create_lua_stack_from_property_list w pl
                = (MOSQ_ERR_SUCCESS,
                   [LTable [(LString (mosquitto_property_identifier_to_string ident), v)]])"
proof (cases "property_type ident")
  case MQTT_PROP_TYPE_BYTE
  with val have "whole_number_in 0 1 v"
    by (simp add: round_trip_value_def)
  then obtain d where v: "v = LNumber d" and whole: "d = of_int (towards_zero d)"
    and range: "0 \<le> towards_zero d" "towards_zero d \<le> 1"
    by (rule whole_number_inD)
  let ?p = "(property_calloc ident)\<lparr>value_i8 := word_of_int (towards_zero d)\<rparr>"
  have u: "uint (word_of_int (towards_zero d) :: 8 word) = towards_zero d"
    using range by (intro uint_word_of_int_8) simp_all
  have acc: "entry_properties w (LString (mosquitto_property_identifier_to_string ident), v)
             = Some [?p]"
  proof -
    have "INT_MIN \<le> towards_zero d" "towards_zero d \<le> INT_MAX"
      using range by (simp_all add: INT_MIN_def INT_MAX_def)
    then show ?thesis
      unfolding v number_entry [OF \<open>INT_MIN \<le> towards_zero d\<close> \<open>towards_zero d \<le> INT_MAX\<close>]
      using range by (simp add: number_property_def MQTT_PROP_TYPE_BYTE)
  qed
  have chk: "mosquitto_property_check_all command [?p] = MOSQ_ERR_SUCCESS"
    using MQTT_PROP_TYPE_BYTE permits range
    by (auto simp: check_all_single property_calloc_def u)
  have dv: "decoded_value ?p = v"
    using whole by (simp add: decoded_value_def property_calloc_def MQTT_PROP_TYPE_BYTE u
        lua_pushinteger_def v)
  show ?thesis
    using MQTT_PROP_TYPE_BYTE
    by (intro single_property_round_trip [OF alloc reads acc _ _ chk dv])
       (auto simp: property_calloc_def)
next
  case MQTT_PROP_TYPE_INT16
  with val have "whole_number_in
      (if ident \<in> set [MQTT_PROP_RECEIVE_MAXIMUM, MQTT_PROP_TOPIC_ALIAS] then 1 else 0) 65535 v"
    by (simp add: round_trip_value_def)
  then obtain d where v: "v = LNumber d" and whole: "d = of_int (towards_zero d)"
    and lo: "(if ident \<in> set [MQTT_PROP_RECEIVE_MAXIMUM, MQTT_PROP_TOPIC_ALIAS] then 1 else 0)
             \<le> towards_zero d"
    and hi: "towards_zero d \<le> 65535"
    by (rule whole_number_inD)
  from lo have range: "0 \<le> towards_zero d"
    by (simp split: if_splits)
  let ?p = "(property_calloc ident)\<lparr>value_i16 := word_of_int (towards_zero d)\<rparr>"
  have u: "uint (word_of_int (towards_zero d) :: 16 word) = towards_zero d"
    using range hi by (rule uint_word_of_int_16)
  have nz: "(word_of_int (towards_zero d) :: 16 word) \<noteq> 0"
    if "ident \<in> set [MQTT_PROP_RECEIVE_MAXIMUM, MQTT_PROP_TOPIC_ALIAS]"
    using that lo hi by (intro word_of_int_16_nonzero) simp_all
  have acc: "entry_properties w (LString (mosquitto_property_identifier_to_string ident), v)
             = Some [?p]"
  proof -
    have "INT_MIN \<le> towards_zero d" "towards_zero d \<le> INT_MAX"
      using range hi by (simp_all add: INT_MIN_def INT_MAX_def)
    then show ?thesis
      unfolding v number_entry [OF \<open>INT_MIN \<le> towards_zero d\<close> \<open>towards_zero d \<le> INT_MAX\<close>]
      using range hi by (simp add: number_property_def MQTT_PROP_TYPE_INT16)
  qed
  have chk: "mosquitto_property_check_all command [?p] = MOSQ_ERR_SUCCESS"
    using MQTT_PROP_TYPE_INT16 permits nz
    by (auto simp: check_all_single property_calloc_def)
  have dv: "decoded_value ?p = v"
    using whole by (simp add: decoded_value_def property_calloc_def MQTT_PROP_TYPE_INT16 u
        lua_pushinteger_def v)
  show ?thesis
    using MQTT_PROP_TYPE_INT16
    by (intro single_property_round_trip [OF alloc reads acc _ _ chk dv])
       (auto simp: property_calloc_def)
next
  case MQTT_PROP_TYPE_INT32
  with val have "whole_number_in
      (if ident = MQTT_PROP_MAXIMUM_PACKET_SIZE then 1 else 0) 2147483647 v"
    by (simp add: round_trip_value_def)
  then obtain d where v: "v = LNumber d" and whole: "d = of_int (towards_zero d)"
    and lo: "(if ident = MQTT_PROP_MAXIMUM_PACKET_SIZE then 1 else 0) \<le> towards_zero d"
    and hi: "towards_zero d \<le> 2147483647"
    by (rule whole_number_inD)
  from lo have range: "0 \<le> towards_zero d"
    by (simp split: if_splits)
  let ?p = "(property_calloc ident)\<lparr>value_i32 := word_of_int (towards_zero d)\<rparr>"
  have u: "uint (word_of_int (towards_zero d) :: 32 word) = towards_zero d"
    using range hi by (rule uint_word_of_int_32)
  have nz: "(word_of_int (towards_zero d) :: 32 word) \<noteq> 0"
    if "ident = MQTT_PROP_MAXIMUM_PACKET_SIZE"
    using that lo hi by (intro word_of_int_32_nonzero) simp_all
  have acc: "entry_properties w (LString (mosquitto_property_identifier_to_string ident), v)
             = Some [?p]"
  proof -
    have "INT_MIN \<le> towards_zero d" "towards_zero d \<le> INT_MAX"
      using range hi by (simp_all add: INT_MIN_def INT_MAX_def)
    then show ?thesis
      unfolding v number_entry [OF \<open>INT_MIN \<le> towards_zero d\<close> \<open>towards_zero d \<le> INT_MAX\<close>]
      using range hi by (simp add: number_property_def MQTT_PROP_TYPE_INT32)
  qed
  have chk: "mosquitto_property_check_all command [?p] = MOSQ_ERR_SUCCESS"
    using MQTT_PROP_TYPE_INT32 permits nz
    by (auto simp: check_all_single property_calloc_def)
  have dv: "decoded_value ?p = v"
    using whole by (simp add: decoded_value_def property_calloc_def MQTT_PROP_TYPE_INT32 u
        lua_pushinteger_def v)
  show ?thesis
    using MQTT_PROP_TYPE_INT32
    by (intro single_property_round_trip [OF alloc reads acc _ _ chk dv])
       (auto simp: property_calloc_def)
next
  case MQTT_PROP_TYPE_VARINT
  with val have "whole_number_in 0 268435455 v"
    by (simp add: round_trip_value_def)
  then obtain d where v: "v = LNumber d" and whole: "d = of_int (towards_zero d)"
    and range: "0 \<le> towards_zero d" and hi: "towards_zero d \<le> 268435455"
    by (rule whole_number_inD)
  let ?p = "(property_calloc ident)\<lparr>value_varint := word_of_int (towards_zero d)\<rparr>"
  have u: "uint (word_of_int (towards_zero d) :: 32 word) = towards_zero d"
    using range hi by (intro uint_word_of_int_32) simp_all
  have acc: "entry_properties w (LString (mosquitto_property_identifier_to_string ident), v)
             = Some [?p]"
  proof -
    have "INT_MIN \<le> towards_zero d" "towards_zero d \<le> INT_MAX"
      using range hi by (simp_all add: INT_MIN_def INT_MAX_def)
    then show ?thesis
      unfolding v number_entry [OF \<open>INT_MIN \<le> towards_zero d\<close> \<open>towards_zero d \<le> INT_MAX\<close>]
      using range hi by (simp add: number_property_def MQTT_PROP_TYPE_VARINT)
  qed
  have chk: "mosquitto_property_check_all command [?p] = MOSQ_ERR_SUCCESS"
    using MQTT_PROP_TYPE_VARINT permits
    by (auto simp: check_all_single property_calloc_def)
  have dv: "decoded_value ?p = v"
    using whole by (simp add: decoded_value_def property_calloc_def MQTT_PROP_TYPE_VARINT u
        lua_pushinteger_def v)
  show ?thesis
    using MQTT_PROP_TYPE_VARINT
    by (intro single_property_round_trip [OF alloc reads acc _ _ chk dv])
       (auto simp: property_calloc_def)
next
  case MQTT_PROP_TYPE_BINARY
  with val obtain s where v: "v = LString s" and z: "CHR 0x00 \<notin> set s"
    and len: "length s \<le> 65535"
    by (cases v) (simp_all add: round_trip_value_def)
  let ?p = "(property_calloc ident)\<lparr>value_bin := s\<rparr>"
  have acc: "entry_properties w (LString (mosquitto_property_identifier_to_string ident), v)
             = Some [?p]"
    unfolding v string_entry
    using len
    by (simp add: string_property_def MQTT_PROP_TYPE_BINARY
        strlen_without_zero [OF z] cstring_without_zero [OF z])
  have chk: "mosquitto_property_check_all command [?p] = MOSQ_ERR_SUCCESS"
    using MQTT_PROP_TYPE_BINARY permits
    by (auto simp: check_all_single property_calloc_def)
  have dv: "decoded_value ?p = v"
    by (simp add: decoded_value_def property_calloc_def MQTT_PROP_TYPE_BINARY v)
  show ?thesis
    using MQTT_PROP_TYPE_BINARY
    by (intro single_property_round_trip [OF alloc reads acc _ _ chk dv])
       (auto simp: property_calloc_def)
next
  case MQTT_PROP_TYPE_STRING
  with val obtain s where v: "v = LString s" and z: "CHR 0x00 \<notin> set s"
    and valid: "utf8_valid w s"
    by (cases v) (simp_all add: round_trip_value_def)
  let ?p = "(property_calloc ident)\<lparr>value_s := s\<rparr>"
  have acc: "entry_properties w (LString (mosquitto_property_identifier_to_string ident), v)
             = Some [?p]"
    unfolding v string_entry
    using valid
    by (simp add: string_property_def MQTT_PROP_TYPE_STRING cstring_without_zero [OF z])
  have chk: "mosquitto_property_check_all command [?p] = MOSQ_ERR_SUCCESS"
    using MQTT_PROP_TYPE_STRING permits
    by (auto simp: check_all_single property_calloc_def)
  have dv: "decoded_value ?p = v"
    by (simp add: decoded_value_def property_calloc_def MQTT_PROP_TYPE_STRING v
        lua_pushstring_def cstring_without_zero [OF z])
  show ?thesis
    using MQTT_PROP_TYPE_STRING
    by (intro single_property_round_trip [OF alloc reads acc _ _ chk dv])
       (auto simp: property_calloc_def)
next
  case MQTT_PROP_TYPE_STRING_PAIR
  then have user: "ident = MQTT_PROP_USER_PROPERTY"
    by (rule string_pair_only_user_property)
  from val MQTT_PROP_TYPE_STRING_PAIR obtain t where v: "v = LTable t" and ne: "t \<noteq> []"
    and d: "distinct (map fst t)"
    and strs: "list_all (\<lambda>(k, x). pair_string w k \<and> pair_string w x) t"
    by (cases v) (simp_all add: round_trip_value_def)
  from valid_pairs_encoded [OF strs] obtain ps
    where ps: "pair_properties w MQTT_PROP_USER_PROPERTY t = Some ps"
      and ue: "user_entries ps = t" and pe: "plain_entries ps = []"
      and ids: "\<forall>p\<in>set ps. prop_identifier p = MQTT_PROP_USER_PROPERTY"
    by blast
  have acc: "those (map (entry_properties w)
                      [(LString (mosquitto_property_identifier_to_string ident), v)])
             = Some [ps]"
    using registry_finds_own_name [of MQTT_PROP_USER_PROPERTY]
    by (simp add: user v ps lua_tolstring_def)
  have chk: "mosquitto_property_check_all command ps = MOSQ_ERR_SUCCESS"
    using user_properties_pass_check [OF permits [unfolded user] ids] .
  have enc: "create_property_list_from_lua_stack w
               [(LString (mosquitto_property_identifier_to_string ident), v)] [] command
             = Rc MOSQ_ERR_SUCCESS ps"
    using accepted_table_encoded [OF alloc _ acc, of command] chk by simp
  have "set_all [] t = t"
    using set_all_distinct [OF d, of "[]"] by simp
  then have dec: "create_lua_stack_from_property_list w ps
             = (MOSQ_ERR_SUCCESS,
                [LTable [(LString (mosquitto_property_identifier_to_string ident), v)]])"
    using decode_loop_result [of ps w "[]" None] reads ne
    by (simp add: create_lua_stack_from_property_list_def ue pe user v)
  from enc dec show ?thesis
    by blast
qed

lemma plain_world_reads: "read_alloc_ok plain_world p"
  by (simp add: plain_world_def)

text \<open>
  The theorem for C6 at one property of each wire type, each with a command that may
  carry it.
\<close>

theorem one_entry_round_trip_witness:
  "(\<exists>pl. create_property_list_from_lua_stack plain_world
            [(LString ''payload-format-indicator'', LNumber 1)] [] CMD_PUBLISH
          = Rc MOSQ_ERR_SUCCESS pl
          \<and> create_lua_stack_from_property_list plain_world pl
            = (MOSQ_ERR_SUCCESS, [LTable [(LString ''payload-format-indicator'', LNumber 1)]]))
   \<and> (\<exists>pl. create_property_list_from_lua_stack plain_world
            [(LString ''topic-alias'', LNumber 5)] [] CMD_PUBLISH
          = Rc MOSQ_ERR_SUCCESS pl
          \<and> create_lua_stack_from_property_list plain_world pl
            = (MOSQ_ERR_SUCCESS, [LTable [(LString ''topic-alias'', LNumber 5)]]))
   \<and> (\<exists>pl. create_property_list_from_lua_stack plain_world
            [(LString ''message-expiry-interval'', LNumber 255)] [] CMD_PUBLISH
          = Rc MOSQ_ERR_SUCCESS pl
          \<and> create_lua_stack_from_property_list plain_world pl
            = (MOSQ_ERR_SUCCESS, [LTable [(LString ''message-expiry-interval'', LNumber 255)]]))
   \<and> (\<exists>pl. create_property_list_from_lua_stack plain_world
            [(LString ''subscription-identifier'', LNumber 7)] [] CMD_SUBSCRIBE
          = Rc MOSQ_ERR_SUCCESS pl
          \<and> create_lua_stack_from_property_list plain_world pl
            = (MOSQ_ERR_SUCCESS, [LTable [(LString ''subscription-identifier'', LNumber 7)]]))
   \<and> (\<exists>pl. create_property_list_from_lua_stack plain_world
            [(LString ''content-type'', LString ''text/json'')] [] CMD_WILL
          = Rc MOSQ_ERR_SUCCESS pl
          \<and> create_lua_stack_from_property_list plain_world pl
            = (MOSQ_ERR_SUCCESS, [LTable [(LString ''content-type'', LString ''text/json'')]]))
   \<and> (\<exists>pl. create_property_list_from_lua_stack plain_world
            [(LString ''correlation-data'', LString ''abc'')] [] CMD_PUBLISH
          = Rc MOSQ_ERR_SUCCESS pl
          \<and> create_lua_stack_from_property_list plain_world pl
            = (MOSQ_ERR_SUCCESS, [LTable [(LString ''correlation-data'', LString ''abc'')]]))
   \<and> (\<exists>pl. create_property_list_from_lua_stack plain_world
            [(LString ''user-property'',
              LTable [(LString ''a'', LString ''1''), (LString ''b'', LString ''2'')])]
            [] CMD_CONNECT
          = Rc MOSQ_ERR_SUCCESS pl
          \<and> create_lua_stack_from_property_list plain_world pl
            = (MOSQ_ERR_SUCCESS,
               [LTable [(LString ''user-property'',
                         LTable [(LString ''a'', LString ''1''), (LString ''b'', LString ''2'')])]]))"
proof -
  have byte: "mosquitto_property_check_command CMD_PUBLISH MQTT_PROP_PAYLOAD_FORMAT_INDICATOR
                = MOSQ_ERR_SUCCESS"
    "round_trip_value plain_world MQTT_PROP_PAYLOAD_FORMAT_INDICATOR (LNumber 1)"
    by code_simp+
  have int16: "mosquitto_property_check_command CMD_PUBLISH MQTT_PROP_TOPIC_ALIAS
                 = MOSQ_ERR_SUCCESS"
    "round_trip_value plain_world MQTT_PROP_TOPIC_ALIAS (LNumber 5)"
    by code_simp+
  have int32: "mosquitto_property_check_command CMD_PUBLISH MQTT_PROP_MESSAGE_EXPIRY_INTERVAL
                 = MOSQ_ERR_SUCCESS"
    "round_trip_value plain_world MQTT_PROP_MESSAGE_EXPIRY_INTERVAL (LNumber 255)"
    by code_simp+
  have varint: "mosquitto_property_check_command CMD_SUBSCRIBE MQTT_PROP_SUBSCRIPTION_IDENTIFIER
                  = MOSQ_ERR_SUCCESS"
    "round_trip_value plain_world MQTT_PROP_SUBSCRIPTION_IDENTIFIER (LNumber 7)"
    by code_simp+
  have str: "mosquitto_property_check_command CMD_WILL MQTT_PROP_CONTENT_TYPE = MOSQ_ERR_SUCCESS"
    "round_trip_value plain_world MQTT_PROP_CONTENT_TYPE (LString ''text/json'')"
    by code_simp+
  have bin: "mosquitto_property_check_command CMD_PUBLISH MQTT_PROP_CORRELATION_DATA
               = MOSQ_ERR_SUCCESS"
    "round_trip_value plain_world MQTT_PROP_CORRELATION_DATA (LString ''abc'')"
    by code_simp+
  have pairs: "mosquitto_property_check_command CMD_CONNECT MQTT_PROP_USER_PROPERTY
                 = MOSQ_ERR_SUCCESS"
    "round_trip_value plain_world MQTT_PROP_USER_PROPERTY
       (LTable [(LString ''a'', LString ''1''), (LString ''b'', LString ''2'')])"
    by code_simp+
  from one_entry_round_trip [OF byte plain_world_allocates plain_world_reads]
       one_entry_round_trip [OF int16 plain_world_allocates plain_world_reads]
       one_entry_round_trip [OF int32 plain_world_allocates plain_world_reads]
       one_entry_round_trip [OF varint plain_world_allocates plain_world_reads]
       one_entry_round_trip [OF str plain_world_allocates plain_world_reads]
       one_entry_round_trip [OF bin plain_world_allocates plain_world_reads]
       one_entry_round_trip [OF pairs plain_world_allocates plain_world_reads]
  show ?thesis
    by simp
qed

text \<open>
  Against C6 as stated (the round trip is the identity for every value that fits the
  wire type): the byte 2 under \<^verbatim>\<open>payload-format-indicator\<close> is not encoded for a
  publish at all, since \<^verbatim>\<open>mosquitto_property_check_all\<close> rejects a byte above 1, and
  neither is the 16-bit value 0 under \<^verbatim>\<open>topic-alias\<close>, which it rejects as well; the
  empty table under \<^verbatim>\<open>user-property\<close> is encoded as the empty list, which is decoded as
  the empty table, without the entry; and the three bytes \<^verbatim>\<open>a\<close>, 0, \<^verbatim>\<open>b\<close> under
  \<^verbatim>\<open>correlation-data\<close> are encoded as the single byte \<^verbatim>\<open>a\<close> and come back as that.
\<close>

theorem round_trip_fails_for_values_of_the_wire_type:
  "create_property_list_from_lua_stack plain_world
     [(LString ''payload-format-indicator'', LNumber 2)] [] CMD_PUBLISH
    = Rc MOSQ_ERR_INVAL []
   \<and> create_property_list_from_lua_stack plain_world
     [(LString ''topic-alias'', LNumber 0)] [] CMD_PUBLISH
    = Rc MOSQ_ERR_INVAL []
   \<and> create_property_list_from_lua_stack plain_world
     [(LString ''user-property'', LTable [])] [] CMD_PUBLISH
    = Rc MOSQ_ERR_SUCCESS []
   \<and> create_lua_stack_from_property_list plain_world [] = (MOSQ_ERR_SUCCESS, [LTable []])
   \<and> create_property_list_from_lua_stack plain_world
     [(LString ''correlation-data'', LString [CHR ''a'', CHR 0x00, CHR ''b''])] [] CMD_PUBLISH
    = Rc MOSQ_ERR_SUCCESS [(property_calloc MQTT_PROP_CORRELATION_DATA)\<lparr>value_bin := ''a''\<rparr>]
   \<and> create_lua_stack_from_property_list plain_world
       [(property_calloc MQTT_PROP_CORRELATION_DATA)\<lparr>value_bin := ''a''\<rparr>]
    = (MOSQ_ERR_SUCCESS, [LTable [(LString ''correlation-data'', LString ''a'')]])"
  by code_simp

subsection \<open>Callbacks\<close>

text \<open>
  A handler registered for messages is called with the five arguments of a message.
\<close>

lemma on_message_selected:
  "selected_callback_type w (LString ''ON_MESSAGE'') = Some CALLBACK_ON_MESSAGE"
  by (simp add: selected_callback_type_def callback_type_from_string_def cstring_def
      strlen_def D_def)

lemma store_on_message:
  "store_ref CALLBACK_ON_MESSAGE r c = Some (c\<lparr>on_message := r\<rparr>)"
  by (simp add: store_ref_def CALLBACK_ON_MESSAGE_def CALLBACK_ON_CONNECT_def
      CALLBACK_ON_CONNECT_V5_def CALLBACK_ON_DISCONNECT_def CALLBACK_ON_DISCONNECT_V5_def
      CALLBACK_ON_PUBLISH_def CALLBACK_ON_PUBLISH_V5_def)

lemma registered_message_handler_is_called:
  "deliver plain_world
     (callback_sets plain_world (mosq_new zeroed_ctx empty_registry)
        [(LString ''ON_MESSAGE'', LFunction 7, [])])
     (Message \<lparr>mid = 3, topic = ''t'', payload = ''p'', qos = 2, retain = True\<rparr>)
   = Some (Called (LFunction 7)
             [LNumber 3, LString ''t'', LString ''p'', LNumber 2, LBoolean True])"
  by (simp add: deliver_def ctx_on_message_def mosq_new_def empty_registry_def
      lua_rawgeti_def lua_call_def ctx_callback_set_def on_message_selected store_on_message
      luaL_ref_def mosq__pstatus_def lua_pushinteger_def
      lua_pushstring_def lua_pushlstring_def cstring_def strlen_def)

lemma on_connect_selected:
  "selected_callback_type w (LString ''ON_CONNECT'') = Some CALLBACK_ON_CONNECT"
  by (simp add: selected_callback_type_def callback_type_from_string_def cstring_def
      strlen_def D_def)

lemma store_on_connect:
  "store_ref CALLBACK_ON_CONNECT r c = Some (c\<lparr>on_connect := r\<rparr>)"
  by (simp add: store_ref_def)

lemma two_registrations:
  "callback_sets w (mosq_new mem empty_registry)
     [(LString ''ON_CONNECT'', LFunction 1, []), (LString ''ON_CONNECT'', LFunction 2, [])]
   = \<lparr>ctx = (ctx__on_init mem)\<lparr>on_connect := 2\<rparr>,
      registry = \<lparr>refs = [1 \<mapsto> LFunction 1, 2 \<mapsto> LFunction 2], free_refs = [],
                  last_ref = 2\<rparr>,
      mosq_callbacks = {CALLBACK_ON_CONNECT}\<rparr>"
  by (simp add: ctx_callback_set_def on_connect_selected store_on_connect luaL_ref_def
      mosq_new_def empty_registry_def mosq__pstatus_def)

lemma clear_after_two_registrations:
  "ctx__on_clear ((ctx__on_init mem)\<lparr>on_connect := 2\<rparr>)
     \<lparr>refs = [1 \<mapsto> LFunction 1, 2 \<mapsto> LFunction 2], free_refs = [], last_ref = 2\<rparr>
   = \<lparr>refs = [1 \<mapsto> LFunction 1], free_refs = [2], last_ref = 2\<rparr>"
  by (simp add: ctx__on_clear_def ctx__on_init_def luaL_unref_def LUA_REFNIL_def)

text \<open>
  \<^bold>\<open>C3\<close>. The claim: registering a handler for a slot that holds one releases the
  reference of the earlier handler. \<^verbatim>\<open>ctx_callback_set\<close> overwrites the slot and never
  calls \<^verbatim>\<open>luaL_unref\<close> on what it held: after two registrations for \<^verbatim>\<open>ON_CONNECT\<close>
  the slot holds the second reference, and the first handler is still referenced by
  the registry, where no slot points to it: \<^verbatim>\<open>ctx__on_clear\<close>, run when the client is
  destroyed, releases the second reference and leaves the first.
\<close>

theorem callback_set_twice_keeps_first_reference:
  "let c = callback_sets w (mosq_new mem empty_registry)
             [(LString ''ON_CONNECT'', LFunction 1, []),
              (LString ''ON_CONNECT'', LFunction 2, [])]
   in on_connect (ctx c) = 2
      \<and> refs (registry c) 1 = Some (LFunction 1)
      \<and> refs (registry c) 2 = Some (LFunction 2)
      \<and> free_refs (registry c) = []
      \<and> refs (ctx__on_clear (ctx c) (registry c)) 1 = Some (LFunction 1)
      \<and> refs (ctx__on_clear (ctx c) (registry c)) 2 = None"
  unfolding two_registrations Let_def client.simps clear_after_two_registrations
  by simp

lemma callback_set_sets_only_selected:
  "t \<in> mosq_callbacks (snd (ctx_callback_set w c sel f extra)) \<Longrightarrow>
   t \<in> mosq_callbacks c \<or> selected_callback_type w sel = Some t"
  by (auto simp: ctx_callback_set_def split: option.splits lua_value.splits prod.splits)

lemma callback_sets_set_only_selected:
  "t \<in> mosq_callbacks (callback_sets w c calls) \<Longrightarrow>
   t \<in> mosq_callbacks c \<or> Some t \<in> set (map (\<lambda>(sel, f, extra). selected_callback_type w sel) calls)"
proof (induction calls arbitrary: c)
  case Nil
  then show ?case by simp
next
  case (Cons call calls)
  obtain sel f extra where call: "call = (sel, f, extra)"
    by (cases call)
  from Cons.prems have "t \<in> mosq_callbacks (callback_sets w (snd (ctx_callback_set w c sel f extra)) calls)"
    by (simp add: call)
  then have "t \<in> mosq_callbacks (snd (ctx_callback_set w c sel f extra))
      \<or> Some t \<in> set (map (\<lambda>(sel, f, extra). selected_callback_type w sel) calls)"
    by (rule Cons.IH)
  then show ?case
    using callback_set_sets_only_selected [of t w c sel f extra] by (auto simp: call)
qed

text \<open>
  \<^verbatim>\<open>ctx_callback_set\<close> is the only place where the binding sets a C callback in
  libmosquitto, and it sets the one of the callback type it was called for. So on a
  new client, after any run of calls of \<^verbatim>\<open>ctx_callback_set\<close> none of which selects
  the type of an event, libmosquitto has no C callback for that event: nothing of the
  binding runs, no handler is called and no error is raised.
\<close>

lemma event_without_registration_not_delivered:
  assumes "Some (event_type ev)
             \<notin> set (map (\<lambda>(sel, f, extra). selected_callback_type w sel) calls)"
  shows "deliver w (callback_sets w (mosq_new mem reg) calls) ev = None"
proof -
  have "event_type ev \<notin> mosq_callbacks (callback_sets w (mosq_new mem reg) calls)"
    using callback_sets_set_only_selected [of "event_type ev" w "mosq_new mem reg" calls] assms
    by (auto simp: mosq_new_def)
  then show ?thesis
    by (simp add: deliver_def)
qed

text \<open>
  \<^bold>\<open>C4\<close>. The claim: an event for which no handler is registered, the slot being in
  its initial empty state, is dropped without effect and without error. The C callbacks
  do not look at what the slot holds, and \<^verbatim>\<open>ctx_callback_set\<close> can set the C callback
  while it leaves the slot empty: \<^verbatim>\<open>luaL_ref\<close> takes the value on top of the stack, not
  the function that was checked as argument 3. After
  \<^verbatim>\<open>callback_set("ON_CONNECT", f, nil)\<close> on a new client the call has returned
  \<^verbatim>\<open>true\<close>, the context and the registry are those of the new client, the slot still
  holds \<^verbatim>\<open>LUA_REFNIL\<close> and no handler is stored, but libmosquitto has the C callback.
  A connect event then runs \<^verbatim>\<open>ctx_on_connect\<close>, which pushes \<^verbatim>\<open>nil\<close> and calls it: a
  Lua error is raised. Without the surplus \<^verbatim>\<open>nil\<close> the same event calls \<^verbatim>\<open>f\<close>.
\<close>

theorem callback_set_with_surplus_nil_registers_nil:
  "ctx_callback_set w (mosq_new mem empty_registry) (LString ''ON_CONNECT'') (LFunction h) [LNil]
     = (Returns [LBoolean True],
        \<lparr>ctx = ctx__on_init mem, registry = empty_registry,
         mosq_callbacks = {CALLBACK_ON_CONNECT}\<rparr>)
   \<and> on_connect (ctx__on_init mem) = LUA_REFNIL
   \<and> deliver w
        \<lparr>ctx = ctx__on_init mem, registry = empty_registry,
         mosq_callbacks = {CALLBACK_ON_CONNECT}\<rparr> (Connect rc)
       = Some (CallError LNil)
   \<and> deliver w
        (snd (ctx_callback_set w (mosq_new mem empty_registry) (LString ''ON_CONNECT'')
                (LFunction h) []))
        (Connect rc)
       = Some (Called (LFunction h)
                 [LBoolean (rc = 0), lua_pushinteger rc,
                  lua_pushstring (mosquitto_connack_string w rc)])"
  by (simp add: ctx_callback_set_def on_connect_selected store_on_connect luaL_ref_def
      mosq_new_def empty_registry_def mosq__pstatus_def ctx__on_init_def deliver_def
      ctx_on_connect_def lua_rawgeti_def lua_call_def LUA_REFNIL_def)

end
